theory Spec2Isabelle
  imports Complex_Main "HOL-Library.Multiset"
begin

section \<open>Numbers, errors and configuration\<close>

text \<open>
  Python floats are modelled as exact reals extended with the value NaN, which numpy
  produces for \<open>0/0\<close> and for the mean of an empty list.  Rounding and infinities are
  left out.  Arithmetic propagates NaN and every comparison with NaN is false.
\<close>

datatype fl = NaN | Fin real

fun fl_add :: "fl \<Rightarrow> fl \<Rightarrow> fl" where
  "fl_add (Fin a) (Fin b) = Fin (a + b)"
| "fl_add _ _ = NaN"

fun fl_gt :: "fl \<Rightarrow> fl \<Rightarrow> bool" where
  "fl_gt (Fin a) (Fin b) = (b < a)"
| "fl_gt _ _ = False"

fun fl_le :: "fl \<Rightarrow> fl \<Rightarrow> bool" where
  "fl_le (Fin a) (Fin b) = (a \<le> b)"
| "fl_le _ _ = False"

fun fl_sum :: "fl list \<Rightarrow> fl" where
  "fl_sum [] = Fin 0"
| "fl_sum (x # xs) = fl_add x (fl_sum xs)"

text \<open>\<open>np.mean\<close>: the sum divided by the number of elements, NaN on the empty list.\<close>

definition np_mean :: "fl list \<Rightarrow> fl" where
  "np_mean xs =
     (case fl_sum xs of
        NaN \<Rightarrow> NaN
      | Fin s \<Rightarrow> if xs = [] then NaN else Fin (s / real (length xs)))"

datatype error =
    ZeroDivisionError | TypeError | AttributeError | UnboundLocalError
  | FileNotFoundError | KeyError | ValueError

text \<open>The options of the argument parser in \<open>main\<close> that the control flow reads.\<close>

record args =
  num_epochs :: int
  checkpoint_step :: int
  validation_step :: int
  learning_rate :: real
  num_classes :: int
  use_gpu :: bool
  pretrained_model_path :: "string option"
  save_model_path :: "string option"
  optimizer :: string
  loss :: string

section \<open>Metric engine\<close>

text \<open>
  Arrays of class indices are modelled in flattened form, as lists of integers.  A confusion
  matrix is a list of rows of counts.
\<close>

type_synonym hist = "nat list list"

text \<open>
  Modelled from the spec: \<open>compute_global_accuracy\<close> of module \<open>utils\<close>, which is not
  part of the sources.  The fraction of positions where prediction and label agree, with
  every position of the label in the denominator; on empty arrays the quotient \<open>0/0\<close> is NaN.
\<close>

definition compute_global_accuracy :: "int list \<Rightarrow> int list \<Rightarrow> fl" where
  "compute_global_accuracy pred label =
     (if label = [] then NaN
      else Fin (real (length (filter (\<lambda>(p, l). p = l) (zip pred label))) / real (length label)))"

text \<open>
  Modelled from the spec: \<open>fast_hist\<close> of module \<open>utils\<close>.  Entry \<open>(i, j)\<close> counts the
  positions whose label is \<open>i\<close> and whose prediction is \<open>j\<close>, for \<open>i\<close> and \<open>j\<close> in
  \<open>[0, n)\<close>; positions whose label lies outside that range are not counted.
\<close>

definition fast_hist :: "int list \<Rightarrow> int list \<Rightarrow> int \<Rightarrow> hist" where
  "fast_hist a b n =
     map (\<lambda>i. map (\<lambda>j. count_list (zip a b) (i, j)) [0 .. n - 1]) [0 .. n - 1]"

text \<open>
  Modelled from the spec: \<open>per_class_iu\<close> of module \<open>utils\<close>.  For class \<open>i\<close> the
  intersection is the diagonal entry, the union is row sum plus column sum minus the
  diagonal entry, and the quotient is NaN when the union is zero.
\<close>

definition per_class_iu :: "hist \<Rightarrow> fl list" where
  "per_class_iu h =
     map (\<lambda>i. let inter = h ! i ! i;
                  union = sum_list (h ! i) + sum_list (map (\<lambda>r. r ! i) h) - inter
              in if 0 < union then Fin (real inter / real union) else NaN)
         [0 ..< length h]"

text \<open>\<open>np.zeros((n, n))\<close> and the elementwise \<open>+=\<close> of two matrices of the same shape.\<close>

definition zeros :: "int \<Rightarrow> hist" where
  "zeros n = replicate (nat n) (replicate (nat n) 0)"

definition hist_add :: "hist \<Rightarrow> hist \<Rightarrow> hist" where
  "hist_add h g = map2 (map2 (+)) h g"

section \<open>Collaborators\<close>

text \<open>
  The network, the optimizer internals, the gradient scaler, the tensors and the data
  loaders are opaque to the training script.  They enter the model as type parameters
  (\<open>'m\<close> model parameters, \<open>'o\<close> optimizer accumulators, \<open>'s\<close> scaler state, \<open>'d\<close> image
  tensors, \<open>'t\<close> score and label tensors) and as the functions of the record below.
\<close>

datatype optimizer_kind = RMSprop | SGD | Adam

text \<open>An optimizer: its kind, the learning rate of each parameter group, its accumulators.\<close>

record 'o optimizer =
  kind :: optimizer_kind
  param_groups :: "real list"
  opt_state :: 'o

definition state_dict :: "'o optimizer \<Rightarrow> real list \<times> 'o" where
  "state_dict opt = (param_groups opt, opt_state opt)"

definition load_state_dict :: "'o optimizer \<Rightarrow> real list \<times> 'o \<Rightarrow> 'o optimizer" where
  "load_state_dict opt sd = opt\<lparr>param_groups := fst sd, opt_state := snd sd\<rparr>"

record ('m, 'o, 's, 'd, 't) extern =
  cuda_available :: bool
  min_lr :: real
  init_params :: 'm
  init_opt_state :: "optimizer_kind \<Rightarrow> 'o"
  init_scaler :: 's
  forward_train :: "'m \<Rightarrow> 'd \<Rightarrow> 't \<times> 't \<times> 't"
  forward_eval :: "'m \<Rightarrow> 'd \<Rightarrow> 't"
  squeeze :: "'t \<Rightarrow> 't"
  reverse_one_hot :: "'t \<Rightarrow> 't"
  to_array :: "'t \<Rightarrow> int list"
  dice_loss :: "'t \<Rightarrow> 't \<Rightarrow> fl"
  cross_entropy :: "'t \<Rightarrow> 't \<Rightarrow> fl"
  backward_step :: "fl \<Rightarrow> 'd \<Rightarrow> 't \<Rightarrow> 'm \<times> 'o optimizer \<times> 's \<Rightarrow> 'm \<times> 'o optimizer \<times> 's"

text \<open>
  A data loader with \<open>shuffle=True\<close> yields its batches in a new order at every iteration.
  It is modelled as a function from the epoch in which the iteration starts to the list of
  batches of that iteration; the final validation of \<open>main\<close> is iteration
  \<open>num_epochs + 1\<close>.
\<close>

type_synonym ('d, 't) dataloader = "int \<Rightarrow> ('d \<times> 't) list"

section \<open>Validation loop\<close>

text \<open>
  One iteration of the loop of \<open>val\<close>: the accumulators are \<open>precision_record\<close> and
  \<open>hist\<close>.  \<open>forward_eval\<close> is \<open>model(data).squeeze()\<close> in evaluation mode and
  \<open>to_array\<close> is the conversion to a numpy array, flattened.
\<close>

definition val_step ::
  "('m, 'o, 's, 'd, 't) extern \<Rightarrow> args \<Rightarrow> 'm \<Rightarrow> fl list \<times> hist \<Rightarrow> 'd \<times> 't \<Rightarrow> fl list \<times> hist" where
  "val_step X a m acc batch =
     (case acc of (precision_record, h) \<Rightarrow>
      case batch of (data, label) \<Rightarrow>
        let predict = to_array X (reverse_one_hot X (forward_eval X m data));
            label1 = squeeze X label;
            label2 = (if loss a = ''dice'' then reverse_one_hot X label1 else label1);
            label3 = to_array X label2;
            precision = compute_global_accuracy predict label3
        in (precision_record @ [precision],
            hist_add h (fast_hist label3 predict (num_classes a))))"

definition val_loop ::
  "('m, 'o, 's, 'd, 't) extern \<Rightarrow> args \<Rightarrow> 'm \<Rightarrow> ('d \<times> 't) list \<Rightarrow> fl list \<times> hist" where
  "val_loop X a m batches = foldl (val_step X a m) ([], zeros (num_classes a)) batches"

text \<open>\<open>val\<close>: \<open>np.zeros\<close> raises on a negative dimension; otherwise the pair is returned.\<close>

definition val ::
  "('m, 'o, 's, 'd, 't) extern \<Rightarrow> args \<Rightarrow> 'm \<Rightarrow> ('d \<times> 't) list \<Rightarrow> error + fl \<times> fl" where
  "val X a m batches =
     (if num_classes a < 0 then Inl ValueError
      else case val_loop X a m batches of (precision_record, h) \<Rightarrow>
             Inr (np_mean precision_record, np_mean (butlast (per_class_iu h))))"

section \<open>Files, logs and the state of a run\<close>

text \<open>
  \<open>torch.save\<close> writes either a checkpoint dictionary or a bare model state dictionary.
\<close>

record ('m, 'o) checkpoint =
  epoch :: int
  model_state_dict :: 'm
  optimizer_state_dict :: "real list \<times> 'o"

datatype ('m, 'o) pth_file = CheckpointFile "('m, 'o) checkpoint" | ModelFile 'm

text \<open>
  The messages that \<open>main\<close> prints, one per call of \<open>print\<close>: the dump of the
  arguments, the two formatted messages of the resume section (the path loaded and the
  last epoch done) and fixed texts.
\<close>

datatype msg = PrintArgs args | LoadingModel string | EpochDone int | Text string

definition stars :: string where
  "stars = replicate 100 (CHR ''*'')"

text \<open>
  The effects of a run that outlive it: the file system, the chronological list of the
  \<open>torch.save\<close> calls, the scalars given to the current summary writer and the messages
  of \<open>main\<close> on standard output (the progress lines that \<open>train\<close> and \<open>val\<close>
  print are left out).
\<close>

record ('m, 'o) io =
  files :: "string \<Rightarrow> ('m, 'o) pth_file option"
  saves :: "(string \<times> ('m, 'o) pth_file) list"
  scalars :: "(string \<times> fl \<times> int) list"
  stdout :: "msg list"

definition torch_save :: "string \<Rightarrow> ('m, 'o) pth_file \<Rightarrow> ('m, 'o) io \<Rightarrow> ('m, 'o) io" where
  "torch_save p f w = w\<lparr>files := (files w)(p \<mapsto> f), saves := saves w @ [(p, f)]\<rparr>"

definition add_scalar :: "string \<Rightarrow> fl \<Rightarrow> int \<Rightarrow> ('m, 'o) io \<Rightarrow> ('m, 'o) io" where
  "add_scalar tag v n w = w\<lparr>scalars := scalars w @ [(tag, v, n)]\<rparr>"

text \<open>
  What the operating system answers for a path whatever the file system holds: the empty
  path names nothing (\<open>os.mkdir\<close>, \<open>os.makedirs\<close> and \<open>torch.load\<close> raise
  \<open>FileNotFoundError\<close> on it) and a path with a NUL character is refused with
  \<open>ValueError\<close>.  Every other failure of a directory creation or of a write depends on
  the state of the file system and is outside the model: on any other path they are taken
  to succeed.
\<close>

definition path_error :: "string \<Rightarrow> error option" where
  "path_error p =
     (if p = [] then Some FileNotFoundError
      else if CHR 0x00 \<in> set p then Some ValueError
      else None)"

text \<open>\<open>os.path.join\<close> of a directory and a relative file name.\<close>

definition path_join :: "string \<Rightarrow> string \<Rightarrow> string" where
  "path_join d f = (if d = [] \<or> last d = CHR ''/'' then d @ f else d @ ''/'' @ f)"

text \<open>
  The variables of \<open>train\<close>: the model parameters, the optimizer, the gradient scaler, the
  locals \<open>max_miou\<close> and \<open>step\<close>, and the effects so far.
\<close>

record ('m, 'o, 's) tstate =
  params :: 'm
  optim :: "'o optimizer"
  scaler :: 's
  max_miou :: fl
  step :: int
  io :: "('m, 'o) io"

text \<open>
  \<open>model.module\<close> exists only when \<open>main\<close> has wrapped the model in \<open>DataParallel\<close>.
\<close>

definition has_module :: "('m, 'o, 's, 'd, 't) extern \<Rightarrow> args \<Rightarrow> bool" where
  "has_module X a = (cuda_available X \<and> use_gpu a)"

section \<open>Learning-rate scheduler\<close>

text \<open>
  Modelled from the spec: \<open>poly_lr_scheduler\<close> of module \<open>utils\<close>, which is not part of
  the sources.  The rate \<open>lr0 * (1 - t/T)^0.9\<close>, raised to the minimum threshold \<open>mn\<close>
  when it is below it, is written into every parameter group and returned.  The
  division by \<open>T = 0\<close> raises as Python's does.
\<close>

definition poly_lr :: "real \<Rightarrow> real \<Rightarrow> int \<Rightarrow> int \<Rightarrow> real" where
  "poly_lr mn lr0 t T =
     (let lr = lr0 * (1 - real_of_int t / real_of_int T) powr (9 / 10)
      in if lr < mn then mn else lr)"

definition poly_lr_scheduler ::
  "real \<Rightarrow> 'o optimizer \<Rightarrow> real \<Rightarrow> int \<Rightarrow> int \<Rightarrow> error + 'o optimizer \<times> real" where
  "poly_lr_scheduler mn opt lr0 t T =
     (if T = 0 then Inl ZeroDivisionError
      else let lr = poly_lr mn lr0 t T
           in Inr (opt\<lparr>param_groups := map (\<lambda>_. lr) (param_groups opt)\<rparr>, lr))"

section \<open>Training loop\<close>

text \<open>
  The loss function chosen at the head of \<open>train\<close>.  The \<open>if\<close>/\<open>elif\<close> has no \<open>else\<close>:
  for any other name the variable \<open>loss_func\<close> stays unbound.
\<close>

definition select_loss ::
  "('m, 'o, 's, 'd, 't) extern \<Rightarrow> string \<Rightarrow> ('t \<Rightarrow> 't \<Rightarrow> fl) option" where
  "select_loss X name =
     (if name = ''dice'' then Some (dice_loss X)
      else if name = ''crossentropy'' then Some (cross_entropy X)
      else None)"

text \<open>The loss of one batch: the sum of the losses of the three outputs.\<close>

definition batch_loss :: "('t \<Rightarrow> 't \<Rightarrow> fl) \<Rightarrow> 't \<times> 't \<times> 't \<Rightarrow> 't \<Rightarrow> fl" where
  "batch_loss loss_func outs label =
     (case outs of (output, output_sup1, output_sup2) \<Rightarrow>
        let loss1 = loss_func output label;
            loss2 = loss_func output_sup1 label;
            loss3 = loss_func output_sup2 label
        in fl_add (fl_add loss1 loss2) loss3)"

text \<open>
  The loop over the batches of one epoch.  \<open>backward_step\<close> stands for
  \<open>optimizer.zero_grad()\<close>, \<open>scaler.scale(loss).backward()\<close>, \<open>scaler.step(optimizer)\<close>
  and \<open>scaler.update()\<close>; it receives the loss that is backpropagated.
\<close>

fun train_batches ::
  "('m, 'o, 's, 'd, 't) extern \<Rightarrow> ('t \<Rightarrow> 't \<Rightarrow> fl) option \<Rightarrow> ('d \<times> 't) list \<Rightarrow> fl list \<Rightarrow>
   ('m, 'o, 's) tstate \<Rightarrow> error \<times> ('m, 'o, 's) tstate + fl list \<times> ('m, 'o, 's) tstate" where
  "train_batches X lf [] loss_record st = Inr (loss_record, st)"
| "train_batches X lf ((data, label) # bs) loss_record st =
     (let outs = forward_train X (params st) data
      in (case lf of
            None \<Rightarrow> Inl (UnboundLocalError, st)
          | Some loss_func \<Rightarrow>
              let l = batch_loss loss_func outs label
              in (case backward_step X l data label (params st, optim st, scaler st) of
                    (m', o', s') \<Rightarrow>
                      train_batches X lf bs (loss_record @ [l])
                        (st\<lparr>params := m', optim := o', scaler := s', step := step st + 1,
                            io := add_scalar ''loss_step'' l (step st + 1) (io st)\<rparr>))))"

text \<open>
  The checkpoint section of the epoch body.  \<open>os.path.isdir\<close> raises on \<open>None\<close>;
  it is false on the empty path and on a path with a NUL character, on which
  \<open>os.mkdir\<close> then raises; \<open>model.module\<close> is read after that.
\<close>

definition latest_path :: "string \<Rightarrow> string" where
  "latest_path d = path_join d ''latest_dice_loss.pth''"

definition best_path :: "string \<Rightarrow> string" where
  "best_path d = path_join d ''best_dice_loss.pth''"

definition save_checkpoint ::
  "('m, 'o, 's, 'd, 't) extern \<Rightarrow> args \<Rightarrow> int \<Rightarrow> ('m, 'o, 's) tstate \<Rightarrow>
   error \<times> ('m, 'o, 's) tstate + ('m, 'o, 's) tstate" where
  "save_checkpoint X a ep st =
     (if checkpoint_step a = 0 then Inl (ZeroDivisionError, st)
      else if ep mod checkpoint_step a = 0 \<and> ep \<noteq> 0 then
        (case save_model_path a of
           None \<Rightarrow> Inl (TypeError, st)
         | Some d \<Rightarrow>
             (case path_error d of
                Some e \<Rightarrow> Inl (e, st)
              | None \<Rightarrow>
                  if \<not> has_module X a then Inl (AttributeError, st)
                  else Inr (st\<lparr>io := torch_save (latest_path d)
                             (CheckpointFile \<lparr>epoch = ep, model_state_dict = params st,
                                              optimizer_state_dict = state_dict (optim st)\<rparr>)
                             (io st)\<rparr>)))
      else Inr st)"

text \<open>
  What the epoch body does with the result of a validation.  \<open>max_miou\<close> is assigned
  first; \<open>os.makedirs\<close> raises on \<open>None\<close>, on the empty path and on a path with a NUL
  character; \<open>model.module\<close> is read after that.
\<close>

definition record_validation ::
  "('m, 'o, 's, 'd, 't) extern \<Rightarrow> args \<Rightarrow> int \<Rightarrow> fl \<Rightarrow> fl \<Rightarrow> ('m, 'o, 's) tstate \<Rightarrow>
   error \<times> ('m, 'o, 's) tstate + ('m, 'o, 's) tstate" where
  "record_validation X a ep precision miou st =
     (case (if fl_gt miou (max_miou st) then
              (case save_model_path a of
                 None \<Rightarrow> Inl (TypeError, st\<lparr>max_miou := miou\<rparr>)
               | Some d \<Rightarrow>
                   (case path_error d of
                      Some e \<Rightarrow> Inl (e, st\<lparr>max_miou := miou\<rparr>)
                    | None \<Rightarrow>
                        if \<not> has_module X a then Inl (AttributeError, st\<lparr>max_miou := miou\<rparr>)
                        else Inr (st\<lparr>max_miou := miou,
                                    io := torch_save (best_path d) (ModelFile (params st))
                                            (io st)\<rparr>)))
            else Inr st) of
        Inl e \<Rightarrow> Inl e
      | Inr st' \<Rightarrow>
          Inr (st'\<lparr>io := add_scalar ''epoch/miou val'' miou ep
                           (add_scalar ''epoch/precision_val'' precision ep (io st'))\<rparr>))"

definition validate ::
  "('m, 'o, 's, 'd, 't) extern \<Rightarrow> args \<Rightarrow> ('d, 't) dataloader \<Rightarrow> int \<Rightarrow> ('m, 'o, 's) tstate \<Rightarrow>
   error \<times> ('m, 'o, 's) tstate + ('m, 'o, 's) tstate" where
  "validate X a dataloader_val ep st =
     (if validation_step a = 0 then Inl (ZeroDivisionError, st)
      else if ep mod validation_step a = 0 \<and> ep \<noteq> 0 then
        (case val X a (params st) (dataloader_val ep) of
           Inl e \<Rightarrow> Inl (e, st)
         | Inr (precision, miou) \<Rightarrow> record_validation X a ep precision miou st)
      else Inr st)"

text \<open>
  The body of the epoch loop: \<open>epoch_body\<close> is everything after the call of the
  scheduler in the first line of the body.
\<close>

definition epoch_body ::
  "('m, 'o, 's, 'd, 't) extern \<Rightarrow> args \<Rightarrow> ('t \<Rightarrow> 't \<Rightarrow> fl) option \<Rightarrow> ('d, 't) dataloader \<Rightarrow>
   ('d, 't) dataloader \<Rightarrow> int \<Rightarrow> ('m, 'o, 's) tstate \<Rightarrow>
   error \<times> ('m, 'o, 's) tstate + ('m, 'o, 's) tstate" where
  "epoch_body X a lf dataloader_train dataloader_val ep st =
     (case train_batches X lf (dataloader_train ep) [] st of
        Inl e \<Rightarrow> Inl e
      | Inr (loss_record, st1) \<Rightarrow>
          let loss_train_mean = np_mean loss_record;
              st2 = st1\<lparr>io := add_scalar ''epoch/loss_epoch_train'' loss_train_mean ep (io st1)\<rparr>
          in (case save_checkpoint X a ep st2 of
                Inl e \<Rightarrow> Inl e
              | Inr st3 \<Rightarrow> validate X a dataloader_val ep st3))"

definition train_epoch ::
  "('m, 'o, 's, 'd, 't) extern \<Rightarrow> args \<Rightarrow> ('t \<Rightarrow> 't \<Rightarrow> fl) option \<Rightarrow> ('d, 't) dataloader \<Rightarrow>
   ('d, 't) dataloader \<Rightarrow> int \<Rightarrow> ('m, 'o, 's) tstate \<Rightarrow>
   error \<times> ('m, 'o, 's) tstate + ('m, 'o, 's) tstate" where
  "train_epoch X a lf dataloader_train dataloader_val ep st =
     (case poly_lr_scheduler (min_lr X) (optim st) (learning_rate a) ep (num_epochs a) of
        Inl e \<Rightarrow> Inl (e, st)
      | Inr (opt', lr) \<Rightarrow>
          epoch_body X a lf dataloader_train dataloader_val ep (st\<lparr>optim := opt'\<rparr>))"

fun train_epochs ::
  "('m, 'o, 's, 'd, 't) extern \<Rightarrow> args \<Rightarrow> ('t \<Rightarrow> 't \<Rightarrow> fl) option \<Rightarrow> ('d, 't) dataloader \<Rightarrow>
   ('d, 't) dataloader \<Rightarrow> int list \<Rightarrow> ('m, 'o, 's) tstate \<Rightarrow>
   error \<times> ('m, 'o, 's) tstate + ('m, 'o, 's) tstate" where
  "train_epochs X a lf dataloader_train dataloader_val [] st = Inr st"
| "train_epochs X a lf dataloader_train dataloader_val (ep # eps) st =
     (case train_epoch X a lf dataloader_train dataloader_val ep st of
        Inl e \<Rightarrow> Inl e
      | Inr st' \<Rightarrow> train_epochs X a lf dataloader_train dataloader_val eps st')"

text \<open>\<open>range(curr_epoch + 1, args.num_epochs + 1)\<close>.\<close>

definition epoch_range :: "int \<Rightarrow> int \<Rightarrow> int list" where
  "epoch_range curr_epoch n = [curr_epoch + 1 .. n]"

text \<open>
  The head of \<open>train\<close>: a new summary writer, whose list of scalars is empty, a new
  gradient scaler, \<open>max_miou = 0\<close> and \<open>step = 0\<close>.
\<close>

definition train_init ::
  "('m, 'o, 's, 'd, 't) extern \<Rightarrow> 'm \<Rightarrow> 'o optimizer \<Rightarrow> ('m, 'o) io \<Rightarrow> ('m, 'o, 's) tstate" where
  "train_init X model opt w =
     \<lparr>params = model, optim = opt, scaler = init_scaler X, max_miou = Fin 0, step = 0,
      io = w\<lparr>scalars := []\<rparr>\<rparr>"

definition train ::
  "('m, 'o, 's, 'd, 't) extern \<Rightarrow> args \<Rightarrow> 'm \<Rightarrow> 'o optimizer \<Rightarrow> ('d, 't) dataloader \<Rightarrow>
   ('d, 't) dataloader \<Rightarrow> int \<Rightarrow> ('m, 'o) io \<Rightarrow>
   error \<times> ('m, 'o, 's) tstate + ('m, 'o, 's) tstate" where
  "train X a model opt dataloader_train dataloader_val curr_epoch w =
     train_epochs X a (select_loss X (loss a)) dataloader_train dataloader_val
       (epoch_range curr_epoch (num_epochs a)) (train_init X model opt w)"

section \<open>Run orchestrator\<close>

definition build_optimizer ::
  "('m, 'o, 's, 'd, 't) extern \<Rightarrow> args \<Rightarrow> 'o optimizer option" where
  "build_optimizer X a =
     (if optimizer a = ''rmsprop'' then
        Some \<lparr>kind = RMSprop, param_groups = [learning_rate a], opt_state = init_opt_state X RMSprop\<rparr>
      else if optimizer a = ''sgd'' then
        Some \<lparr>kind = SGD, param_groups = [learning_rate a], opt_state = init_opt_state X SGD\<rparr>
      else if optimizer a = ''adam'' then
        Some \<lparr>kind = Adam, param_groups = [learning_rate a], opt_state = init_opt_state X Adam\<rparr>
      else None)"

text \<open>
  The resume section of \<open>main\<close>: the messages it prints, and the model, the optimizer
  and \<open>curr_epoch\<close> after it.  \<open>torch.load\<close> raises on a missing file,
  \<open>model.module\<close> on a model that is not wrapped, and the subscripts on a file that is
  not a checkpoint dictionary.
\<close>

definition load_pretrained ::
  "('m, 'o, 's, 'd, 't) extern \<Rightarrow> args \<Rightarrow> (string \<Rightarrow> ('m, 'o) pth_file option) \<Rightarrow> 'm \<Rightarrow> 'o optimizer \<Rightarrow>
   msg list \<times> (error + 'm \<times> 'o optimizer \<times> int)" where
  "load_pretrained X a fs model opt =
     (case pretrained_model_path a of
        None \<Rightarrow> ([], Inr (model, opt, 0))
      | Some p \<Rightarrow>
          (let out = [Text (''\<newline>'' @ stars), LoadingModel p]
           in case path_error p of
                Some e \<Rightarrow> (out, Inl e)
              | None \<Rightarrow>
                  (case fs p of
                     None \<Rightarrow> (out, Inl FileNotFoundError)
                   | Some f \<Rightarrow>
                       if \<not> has_module X a then (out, Inl AttributeError)
                       else (case f of
                               ModelFile _ \<Rightarrow> (out, Inl KeyError)
                             | CheckpointFile c \<Rightarrow>
                                 (let curr_epoch = epoch c + 1
                                  in (out @ [EpochDone (curr_epoch - 1), Text ''Done!'',
                                             Text (stars @ ''\<newline>'')],
                                      Inr (model_state_dict c,
                                           load_state_dict opt (optimizer_state_dict c),
                                           curr_epoch)))))))"

text \<open>
  \<open>main\<close> returns nothing; the model gives the effects of the run and the exception that
  ended it, if any.
\<close>

definition main ::
  "('m, 'o, 's, 'd, 't) extern \<Rightarrow> args \<Rightarrow> ('d, 't) dataloader \<Rightarrow> ('d, 't) dataloader \<Rightarrow>
   (string \<Rightarrow> ('m, 'o) pth_file option) \<Rightarrow> ('m, 'o) io \<times> error option" where
  "main X a dataloader_train dataloader_val fs =
     (let w0 = \<lparr>files = fs, saves = [], scalars = [], stdout = [PrintArgs a]\<rparr>
      in case build_optimizer X a of
           None \<Rightarrow> (w0\<lparr>stdout := stdout w0 @ [Text ''not supported optimizer \<newline>'']\<rparr>, None)
         | Some opt \<Rightarrow>
             (case load_pretrained X a fs (init_params X) opt of
                (out, Inl e) \<Rightarrow> (w0\<lparr>stdout := stdout w0 @ out\<rparr>, Some e)
              | (out, Inr (model, opt', curr_epoch)) \<Rightarrow>
                  (case train X a model opt' dataloader_train dataloader_val curr_epoch
                          (w0\<lparr>stdout := stdout w0 @ out\<rparr>) of
                     Inl (e, st) \<Rightarrow> (io st, Some e)
                   | Inr st \<Rightarrow>
                       (case val X a (params st) (dataloader_val (num_epochs a + 1)) of
                          Inl e \<Rightarrow> (io st, Some e)
                        | Inr _ \<Rightarrow> (io st, None)))))"

section \<open>Observations on the effects of a run\<close>

text \<open>The values and the steps logged under a tag of the summary writer.\<close>

definition scalar_values :: "string \<Rightarrow> ('m, 'o) io \<Rightarrow> fl list" where
  "scalar_values tag w = map (\<lambda>x. fst (snd x)) (filter (\<lambda>x. fst x = tag) (scalars w))"

definition scalar_steps :: "string \<Rightarrow> ('m, 'o) io \<Rightarrow> int list" where
  "scalar_steps tag w = map (\<lambda>x. snd (snd x)) (filter (\<lambda>x. fst x = tag) (scalars w))"

text \<open>
  The epochs whose batch loop has completed, the validation results and the number of
  optimizer steps, as the summary writer has them.
\<close>

definition epochs_run :: "('m, 'o) io \<Rightarrow> int list" where
  "epochs_run w = scalar_steps ''epoch/loss_epoch_train'' w"

definition mious :: "('m, 'o) io \<Rightarrow> fl list" where
  "mious w = scalar_values ''epoch/miou val'' w"

text \<open>The writes of bare model parameters and the writes of checkpoints, in order.\<close>

fun model_of :: "string \<times> ('m, 'o) pth_file \<Rightarrow> (string \<times> 'm) list" where
  "model_of (p, ModelFile m) = [(p, m)]"
| "model_of (p, CheckpointFile c) = []"

fun ckpt_of :: "string \<times> ('m, 'o) pth_file \<Rightarrow> (string \<times> ('m, 'o) checkpoint) list" where
  "ckpt_of (p, CheckpointFile c) = [(p, c)]"
| "ckpt_of (p, ModelFile m) = []"

definition best_writes :: "('m, 'o) io \<Rightarrow> (string \<times> 'm) list" where
  "best_writes w = concat (map model_of (saves w))"

definition checkpoint_writes :: "('m, 'o) io \<Rightarrow> (string \<times> ('m, 'o) checkpoint) list" where
  "checkpoint_writes w = concat (map ckpt_of (saves w))"

text \<open>
  The running maximum of a sequence of validation results from a start value, and the
  number of results that strictly exceed the maximum before them.
\<close>

fun run_max :: "fl \<Rightarrow> fl list \<Rightarrow> fl" where
  "run_max m [] = m"
| "run_max m (x # xs) = run_max (if fl_gt x m then x else m) xs"

fun records :: "fl \<Rightarrow> fl list \<Rightarrow> nat" where
  "records m [] = 0"
| "records m (x # xs) = (if fl_gt x m then Suc (records x xs) else records m xs)"

text \<open>
  The invariant of the epoch loop: \<open>max_miou\<close> is the running maximum of the logged
  validation results from 0 and the number of best-model writes since the start of
  \<open>train\<close> is the number of results that exceeded the maximum before them.
\<close>

definition tracker_inv :: "nat \<Rightarrow> ('m, 'o, 's) tstate \<Rightarrow> bool" where
  "tracker_inv k st =
     (max_miou st = run_max (Fin 0) (mious (io st)) \<and>
      length (best_writes (io st)) = k + records (Fin 0) (mious (io st)))"

text \<open>
  The confusion matrix of a list of (label, prediction) array pairs as the spec words it:
  entry \<open>(i, j)\<close> is the number of positions, over all pairs, with label \<open>i\<close> and
  prediction \<open>j\<close>.
\<close>

definition confusion_of :: "(int list \<times> int list) list \<Rightarrow> int \<Rightarrow> hist" where
  "confusion_of pairs n =
     map (\<lambda>i. map (\<lambda>j. sum_list (map (\<lambda>(lab, pred). count_list (zip lab pred) (i, j)) pairs))
                  [0 .. n - 1]) [0 .. n - 1]"

text \<open>The label and prediction arrays that \<open>val\<close> derives from a batch.\<close>

definition batch_arrays ::
  "('m, 'o, 's, 'd, 't) extern \<Rightarrow> args \<Rightarrow> 'm \<Rightarrow> 'd \<times> 't \<Rightarrow> int list \<times> int list" where
  "batch_arrays X a m batch =
     (to_array X (if loss a = ''dice'' then reverse_one_hot X (squeeze X (snd batch))
                  else squeeze X (snd batch)),
      to_array X (reverse_one_hot X (forward_eval X m (fst batch))))"

definition batch_accuracy ::
  "('m, 'o, 's, 'd, 't) extern \<Rightarrow> args \<Rightarrow> 'm \<Rightarrow> 'd \<times> 't \<Rightarrow> fl" where
  "batch_accuracy X a m batch =
     compute_global_accuracy (snd (batch_arrays X a m batch)) (fst (batch_arrays X a m batch))"

text \<open>
  The configurations on which no section of the epoch body raises: the two cadences and
  the epoch count are not zero, the class count is not negative, an output directory is
  given whose path is neither empty nor holds a NUL character, the model is wrapped and
  the loss name is one of the two that \<open>train\<close> knows.
\<close>

definition runnable :: "('m, 'o, 's, 'd, 't) extern \<Rightarrow> args \<Rightarrow> bool" where
  "runnable X a =
     (checkpoint_step a \<noteq> 0 \<and> validation_step a \<noteq> 0 \<and> num_epochs a \<noteq> 0 \<and>
      0 \<le> num_classes a \<and>
      (case save_model_path a of None \<Rightarrow> False | Some d \<Rightarrow> path_error d = None) \<and>
      has_module X a \<and> select_loss X (loss a) \<noteq> None)"

section \<open>A small concrete instance\<close>

text \<open>
  An instance of the collaborators for evaluating the model on concrete runs: tensors are
  lists of class indices, the network returns its input, the model parameters count the
  optimizer steps taken.
\<close>

definition demo_extern :: "(nat, unit, unit, int list, int list) extern" where
  "demo_extern =
     \<lparr>cuda_available = True, min_lr = 1 / 100000, init_params = 0, init_opt_state = (\<lambda>_. ()),
      init_scaler = (), forward_train = (\<lambda>m d. (d, d, d)), forward_eval = (\<lambda>m d. d),
      squeeze = (\<lambda>t. t), reverse_one_hot = (\<lambda>t. t), to_array = (\<lambda>t. t),
      dice_loss = (\<lambda>out label. Fin 1), cross_entropy = (\<lambda>out label. Fin 2),
      backward_step = (\<lambda>l d t (m, opt, s). (m + 1, opt, s))\<rparr>"

definition demo_args :: args where
  "demo_args =
     \<lparr>num_epochs = 3, checkpoint_step = 2, validation_step = 1, learning_rate = 1 / 40,
      num_classes = 2, use_gpu = True, pretrained_model_path = None,
      save_model_path = Some ''out'', optimizer = ''sgd'', loss = ''dice''\<rparr>"

definition demo_train :: "(int list, int list) dataloader" where
  "demo_train ep = [([0, 1], [0, 1])]"

definition demo_val :: "(int list, int list) dataloader" where
  "demo_val ep = [([0, 0], [0, 1])]"

definition demo_opt :: "unit optimizer" where
  "demo_opt = \<lparr>kind = SGD, param_groups = [1 / 40], opt_state = ()\<rparr>"

definition demo_io :: "(nat, unit) io" where
  "demo_io = \<lparr>files = (\<lambda>p. None), saves = [], scalars = [], stdout = []\<rparr>"


text \<open>
  A resumed run: ten epochs, and a checkpoint of epoch 5 at the path the run resumes from.
\<close>

definition resume_args :: args where
  "resume_args =
     demo_args\<lparr>num_epochs := 10, validation_step := 5,
               pretrained_model_path := Some ''out/latest_dice_loss.pth''\<rparr>"

definition resume_fs :: "string \<Rightarrow> (nat, unit) pth_file option" where
  "resume_fs p =
     (if p = ''out/latest_dice_loss.pth''
      then Some (CheckpointFile \<lparr>epoch = 5, model_state_dict = 5,
                                 optimizer_state_dict = ([1 / 80], ())\<rparr>)
      else None)"

text \<open>
  The same file system with a best-model file left by an earlier run.
\<close>

definition resume_fs_best :: "string \<Rightarrow> (nat, unit) pth_file option" where
  "resume_fs_best p =
     (if p = ''out/best_dice_loss.pth'' then Some (ModelFile 99) else resume_fs p)"

text \<open>A run with a loss name that \<open>train\<close> does not know, and a loader with no batch.\<close>

definition foo_args :: args where
  "foo_args = demo_args\<lparr>loss := ''foo''\<rparr>"

definition no_batches :: "(int list, int list) dataloader" where
  "no_batches ep = []"

text \<open>A validation pass with three classes and two batches.\<close>

definition three_class_args :: args where
  "three_class_args = demo_args\<lparr>num_classes := 3\<rparr>"

definition two_batches :: "(int list \<times> int list) list" where
  "two_batches = [([0, 1, 1, 2], [0, 1, 2, 2]), ([0, 0, 1], [0, 1, 1])]"

section \<open>Properties of the validation loop\<close>

lemma upto01: "[0 .. 1::int] = [0, 1]"
  by (simp add: upto.simps)

lemma row_add_swap:
  "map2 (+) (map2 (+) z a) b = map2 (+) (map2 (+) z b) (a :: nat list)"
proof (induction z arbitrary: a b)
  case Nil
  show ?case by simp
next
  case (Cons x z)
  show ?case
  proof (cases a)
    case Nil
    then show ?thesis by simp
  next
    case ca: (Cons y a')
    show ?thesis
    proof (cases b)
      case Nil
      then show ?thesis by simp
    next
      case (Cons w b')
      with ca Cons.IH [of a' b'] show ?thesis by simp
    qed
  qed
qed

lemma hist_add_swap:
  "hist_add (hist_add z a) b = hist_add (hist_add z b) a"
  unfolding hist_add_def
proof (induction z arbitrary: a b)
  case Nil
  show ?case by simp
next
  case (Cons x z)
  show ?case
  proof (cases a)
    case Nil
    then show ?thesis by simp
  next
    case ca: (Cons y a')
    show ?thesis
    proof (cases b)
      case Nil
      then show ?thesis by simp
    next
      case (Cons w b')
      with ca Cons.IH [of a' b'] row_add_swap [of x y w] show ?thesis by simp
    qed
  qed
qed

lemma val_step_pair:
  "val_step X a m (pr, h) b =
     (pr @ [batch_accuracy X a m b],
      hist_add h (fast_hist (fst (batch_arrays X a m b)) (snd (batch_arrays X a m b)) (num_classes a)))"
  by (cases b) (simp add: val_step_def batch_accuracy_def batch_arrays_def Let_def)

lemma val_loop_foldl:
  "foldl (val_step X a m) (pr, h) bs =
     (pr @ map (batch_accuracy X a m) bs,
      foldl hist_add h
        (map (\<lambda>b. fast_hist (fst (batch_arrays X a m b)) (snd (batch_arrays X a m b)) (num_classes a)) bs))"
  by (induction bs arbitrary: pr h) (simp_all add: val_step_pair)

text \<open>
  Claim C8.  The confusion matrix that the validation loop accumulates from the zero matrix
  does not depend on the order of two batches: the pass over \<open>[b1, b2]\<close> and the pass
  over \<open>[b2, b1]\<close> end with the same matrix.
\<close>

theorem val_hist_order_irrelevant:
  "snd (val_loop X a m [b1, b2]) = snd (val_loop X a m [b2, b1])"
  unfolding val_loop_def val_loop_foldl by (simp add: hist_add_swap)

lemma map2_same_index:
  "map2 f (map g xs) (map h xs) = map (\<lambda>x. f (g x) (h x)) xs"
  by (induction xs) simp_all

lemma hist_add_confusion:
  "hist_add (confusion_of ps n) (fast_hist l p n) = confusion_of (ps @ [(l, p)]) n"
  by (simp add: hist_add_def confusion_of_def fast_hist_def map2_same_index)

lemma foldl_confusion:
  "foldl hist_add (confusion_of ps n) (map (\<lambda>q. fast_hist (fst q) (snd q) n) qs) = confusion_of (ps @ qs) n"
proof (induction qs arbitrary: ps)
  case Nil
  show ?case by simp
next
  case (Cons q qs)
  have "hist_add (confusion_of ps n) (fast_hist (fst q) (snd q) n) = confusion_of (ps @ [q]) n"
    using hist_add_confusion [of ps n "fst q" "snd q"] by simp
  then show ?case using Cons.IH [of "ps @ [q]"] by simp
qed

lemma zeros_confusion: "zeros n = confusion_of [] n"
  by (simp add: zeros_def confusion_of_def map_replicate_const)

lemma val_loop_eq:
  "val_loop X a m bs =
     (map (batch_accuracy X a m) bs, confusion_of (map (batch_arrays X a m) bs) (num_classes a))"
proof -
  have "foldl hist_add (zeros (num_classes a))
          (map (\<lambda>b. fast_hist (fst (batch_arrays X a m b)) (snd (batch_arrays X a m b)) (num_classes a)) bs)
        = confusion_of (map (batch_arrays X a m) bs) (num_classes a)"
    using foldl_confusion [of "[]" "num_classes a" "map (batch_arrays X a m) bs"]
    by (simp add: zeros_confusion comp_def)
  then show ?thesis by (simp add: val_loop_def val_loop_foldl)
qed

text \<open>On finite values \<open>np_mean\<close> is the arithmetic mean.\<close>

lemma fl_sum_Fin: "fl_sum (map Fin xs) = Fin (sum_list xs)"
  by (induction xs) simp_all

lemma np_mean_Fin:
  "xs \<noteq> [] \<Longrightarrow> np_mean (map Fin xs) = Fin (sum_list xs / real (length xs))"
  by (simp add: np_mean_def fl_sum_Fin)

lemma fl_sum_NaN: "NaN \<in> set xs \<Longrightarrow> fl_sum xs = NaN"
proof (induction xs)
  case Nil
  then show ?case by simp
next
  case (Cons x xs)
  show ?case
  proof (cases "x = NaN")
    case True
    then show ?thesis by simp
  next
    case False
    with Cons have "fl_sum xs = NaN" by simp
    then show ?thesis by (cases x) simp_all
  qed
qed

lemma np_mean_NaN: "xs = [] \<or> NaN \<in> set xs \<Longrightarrow> np_mean xs = NaN"
  by (auto simp add: np_mean_def fl_sum_NaN)

lemma upto02: "[0 .. 2::int] = [0, 1, 2]"
  by (simp add: upto.simps)

text \<open>
  Claim C5.  On every finite list of batches \<open>val\<close> returns a pair.  Its first
  component is the arithmetic mean of the per-batch pixel accuracies: their sum divided by
  the number of batches.  Its second component is the arithmetic mean of the per-class IoU
  values of the accumulated confusion matrix without the last class.  A mean over no
  value, or over values one of which is NaN, is NaN.
\<close>

theorem val_returns_means:
  assumes "0 \<le> num_classes a"
  shows "\<exists>precision miou.
           val X a m batches = Inr (precision, miou) \<and>
           (\<forall>accs. accs \<noteq> [] \<and> map (batch_accuracy X a m) batches = map Fin accs \<longrightarrow>
              precision = Fin (sum_list accs / real (length accs))) \<and>
           (batches = [] \<or> NaN \<in> set (map (batch_accuracy X a m) batches) \<longrightarrow> precision = NaN) \<and>
           (\<forall>ious. ious \<noteq> [] \<and>
              butlast (per_class_iu (confusion_of (map (batch_arrays X a m) batches) (num_classes a)))
                = map Fin ious \<longrightarrow>
              miou = Fin (sum_list ious / real (length ious))) \<and>
           (butlast (per_class_iu (confusion_of (map (batch_arrays X a m) batches) (num_classes a))) = [] \<or>
            NaN \<in> set (butlast (per_class_iu
                           (confusion_of (map (batch_arrays X a m) batches) (num_classes a)))) \<longrightarrow>
              miou = NaN)"
proof -
  let ?accs = "map (batch_accuracy X a m) batches"
  let ?ious = "butlast (per_class_iu (confusion_of (map (batch_arrays X a m) batches) (num_classes a)))"
  have v: "val X a m batches = Inr (np_mean ?accs, np_mean ?ious)"
    using assms by (simp add: val_def val_loop_eq)
  have p1: "\<forall>accs. accs \<noteq> [] \<and> ?accs = map Fin accs \<longrightarrow>
              np_mean ?accs = Fin (sum_list accs / real (length accs))"
    using np_mean_Fin by auto
  have p2: "batches = [] \<or> NaN \<in> set ?accs \<longrightarrow> np_mean ?accs = NaN"
    using np_mean_NaN [of ?accs] by auto
  have q1: "\<forall>ious. ious \<noteq> [] \<and> ?ious = map Fin ious \<longrightarrow>
              np_mean ?ious = Fin (sum_list ious / real (length ious))"
    using np_mean_Fin by auto
  have q2: "?ious = [] \<or> NaN \<in> set ?ious \<longrightarrow> np_mean ?ious = NaN"
    using np_mean_NaN [of ?ious] by auto
  from v p1 p2 q1 q2 show ?thesis by blast
qed

theorem val_returns_means_witness:
  "val demo_extern three_class_args 0 two_batches = Inr (Fin (17 / 24), Fin (7 / 12))"
proof -
  have n: "0 \<le> num_classes three_class_args"
    by (simp add: three_class_args_def demo_args_def)
  have acc: "map (batch_accuracy demo_extern three_class_args 0) two_batches = map Fin [3 / 4, 2 / 3]"
    by (simp add: batch_accuracy_def batch_arrays_def compute_global_accuracy_def
        demo_extern_def three_class_args_def demo_args_def two_batches_def)
  have h: "confusion_of (map (batch_arrays demo_extern three_class_args 0) two_batches)
             (num_classes three_class_args) = [[2, 0, 0], [1, 2, 0], [0, 1, 1]]"
    by (simp add: batch_arrays_def demo_extern_def three_class_args_def demo_args_def
        two_batches_def confusion_of_def upto02)
  have iu: "butlast (per_class_iu [[2, 0, 0], [1, 2, 0], [0, 1, 1]]) = map Fin [2 / 3, 1 / 2]"
    by (simp add: per_class_iu_def upt_rec)
  from val_returns_means [OF n, of demo_extern 0 two_batches] obtain precision miou where
    v: "val demo_extern three_class_args 0 two_batches = Inr (precision, miou)" and
    p: "\<forall>accs. accs \<noteq> [] \<and>
          map (batch_accuracy demo_extern three_class_args 0) two_batches = map Fin accs \<longrightarrow>
          precision = Fin (sum_list accs / real (length accs))" and
    q: "\<forall>ious. ious \<noteq> [] \<and>
          butlast (per_class_iu (confusion_of (map (batch_arrays demo_extern three_class_args 0)
             two_batches) (num_classes three_class_args))) = map Fin ious \<longrightarrow>
          miou = Fin (sum_list ious / real (length ious))"
    by blast
  from p acc have "precision = Fin (sum_list [3 / 4, 2 / 3] / real (length [3 / 4, 2 / 3 :: real]))"
    by blast
  then have p': "precision = Fin (17 / 24)" by simp
  have e: "butlast (per_class_iu (confusion_of (map (batch_arrays demo_extern three_class_args 0)
             two_batches) (num_classes three_class_args))) = map Fin [2 / 3, 1 / 2]"
    by (simp only: h iu)
  from q e have "miou = Fin (sum_list [2 / 3, 1 / 2] / real (length [2 / 3, 1 / 2 :: real]))"
    by blast
  then have q': "miou = Fin (7 / 12)" by simp
  from v p' q' show ?thesis by simp
qed


text \<open>The accumulated confusion matrix is the same for every order of the batches.\<close>

lemma sum_list_mset_cong:
  fixes xs ys :: "nat list"
  shows "mset xs = mset ys \<Longrightarrow> sum_list xs = sum_list ys"
  by (metis sum_mset_sum_list)

lemma confusion_of_mset:
  assumes "mset ps = mset qs"
  shows "confusion_of ps n = confusion_of qs n"
proof -
  have "sum_list (map f ps) = sum_list (map f qs)" for f :: "int list \<times> int list \<Rightarrow> nat"
  proof -
    from assms have "mset (map f ps) = mset (map f qs)" by (metis mset_map)
    then show ?thesis by (rule sum_list_mset_cong)
  qed
  then show ?thesis by (simp add: confusion_of_def)
qed

lemma val_hist_permutation:
  assumes "mset bs = mset bs'"
  shows "snd (val_loop X a m bs) = snd (val_loop X a m bs')"
proof -
  from assms have "mset (map (batch_arrays X a m) bs) = mset (map (batch_arrays X a m) bs')"
    by (metis mset_map)
  then show ?thesis by (simp add: val_loop_eq confusion_of_mset)
qed

section \<open>Effects of the phases of an epoch\<close>

lemma add_scalar_fields:
  "scalars (add_scalar tag v n w) = scalars w @ [(tag, v, n)]"
  "saves (add_scalar tag v n w) = saves w"
  "files (add_scalar tag v n w) = files w"
  "stdout (add_scalar tag v n w) = stdout w"
  by (simp_all add: add_scalar_def)

lemma torch_save_fields:
  "scalars (torch_save p f w) = scalars w"
  "saves (torch_save p f w) = saves w @ [(p, f)]"
  "files (torch_save p f w) = (files w)(p \<mapsto> f)"
  "stdout (torch_save p f w) = stdout w"
  by (simp_all add: torch_save_def)

lemma scalar_values_add:
  "scalar_values tag (add_scalar tag' v n w) =
     scalar_values tag w @ (if tag' = tag then [v] else [])"
  by (simp add: scalar_values_def add_scalar_fields)

lemma scalar_steps_add:
  "scalar_steps tag (add_scalar tag' v n w) =
     scalar_steps tag w @ (if tag' = tag then [n] else [])"
  by (simp add: scalar_steps_def add_scalar_fields)

lemma scalar_obs_save:
  "scalar_values tag (torch_save p f w) = scalar_values tag w"
  "scalar_steps tag (torch_save p f w) = scalar_steps tag w"
  by (simp_all add: scalar_values_def scalar_steps_def torch_save_fields)

lemma writes_add_scalar:
  "best_writes (add_scalar tag v n w) = best_writes w"
  "checkpoint_writes (add_scalar tag v n w) = checkpoint_writes w"
  by (simp_all add: best_writes_def checkpoint_writes_def add_scalar_fields)

lemma writes_torch_save:
  "best_writes (torch_save p f w) = best_writes w @ model_of (p, f)"
  "checkpoint_writes (torch_save p f w) = checkpoint_writes w @ ckpt_of (p, f)"
  by (simp_all add: best_writes_def checkpoint_writes_def torch_save_fields)

text \<open>The batch loop touches neither the files nor the best-model tracker.\<close>

lemma train_batches_keeps:
  "train_batches X lf bs rec st = Inr (rec', st') \<Longrightarrow>
     saves (io st') = saves (io st) \<and> files (io st') = files (io st) \<and>
     stdout (io st') = stdout (io st) \<and> max_miou st' = max_miou st \<and>
     scalar_values ''epoch/miou val'' (io st') = scalar_values ''epoch/miou val'' (io st) \<and>
     scalar_steps ''epoch/loss_epoch_train'' (io st') = scalar_steps ''epoch/loss_epoch_train'' (io st)"
proof (induction bs arbitrary: rec st)
  case Nil
  then show ?case by simp
next
  case (Cons b bs)
  obtain data label where b: "b = (data, label)" by (cases b)
  from Cons.prems b obtain loss_func where lf: "lf = Some loss_func"
    by (cases lf) (simp_all add: Let_def)
  obtain m' o' s' where bs: "backward_step X
       (batch_loss loss_func (forward_train X (params st) data) label) data label
       (params st, optim st, scaler st) = (m', o', s')"
    by (cases "backward_step X
       (batch_loss loss_func (forward_train X (params st) data) label) data label
       (params st, optim st, scaler st)")
  let ?l = "batch_loss loss_func (forward_train X (params st) data) label"
  let ?st = "st\<lparr>params := m', optim := o', scaler := s', step := step st + 1,
                io := add_scalar ''loss_step'' ?l (step st + 1) (io st)\<rparr>"
  from Cons.prems b lf bs
  have "train_batches X lf bs (rec @ [?l]) ?st = Inr (rec', st')"
    by (simp add: Let_def)
  from Cons.IH [OF this] show ?case
    by (simp add: add_scalar_fields scalar_values_add scalar_steps_add)
qed

lemma train_batches_total:
  "\<exists>rec' st'. train_batches X (Some loss_func) bs rec st = Inr (rec', st')"
proof (induction bs arbitrary: rec st)
  case Nil
  show ?case by simp
next
  case (Cons b bs)
  obtain data label where b: "b = (data, label)" by (cases b)
  show ?case using Cons.IH by (simp add: b Let_def split: prod.split)
qed

lemma path_differ: "latest_path d \<noteq> best_path d"
  by (simp add: latest_path_def best_path_def path_join_def)

lemma save_checkpoint_effect:
  assumes "save_checkpoint X a ep st = Inr st'"
  shows "params st' = params st" and "optim st' = optim st" and "max_miou st' = max_miou st"
    and "scalars (io st') = scalars (io st)"
    and "best_writes (io st') = best_writes (io st)"
    and "ep mod checkpoint_step a = 0 \<and> ep \<noteq> 0 \<Longrightarrow>
           \<exists>d. save_model_path a = Some d \<and> path_error d = None \<and>
               io st' = torch_save (latest_path d)
                  (CheckpointFile \<lparr>epoch = ep, model_state_dict = params st,
                                   optimizer_state_dict = state_dict (optim st)\<rparr>) (io st)"
    and "\<not> (ep mod checkpoint_step a = 0 \<and> ep \<noteq> 0) \<Longrightarrow> st' = st"
  using assms
  by (auto simp add: save_checkpoint_def torch_save_fields writes_torch_save
      split: if_splits option.splits)

lemma record_validation_effect:
  assumes "record_validation X a ep precision miou st = Inr st'"
  shows "params st' = params st" and "optim st' = optim st"
    and "scalars (io st') = scalars (io st) @ [(''epoch/precision_val'', precision, ep), (''epoch/miou val'', miou, ep)]"
    and "max_miou st' = (if fl_gt miou (max_miou st) then miou else max_miou st)"
    and "checkpoint_writes (io st') = checkpoint_writes (io st)"
    and "fl_gt miou (max_miou st) \<Longrightarrow>
           \<exists>d. save_model_path a = Some d \<and> path_error d = None \<and>
               saves (io st') = saves (io st) @ [(best_path d, ModelFile (params st))] \<and>
               files (io st') = (files (io st))(best_path d \<mapsto> ModelFile (params st))"
    and "\<not> fl_gt miou (max_miou st) \<Longrightarrow> saves (io st') = saves (io st) \<and> files (io st') = files (io st)"
  using assms
  by (auto simp add: record_validation_def torch_save_fields add_scalar_fields writes_torch_save writes_add_scalar
      split: if_splits option.splits)


lemma validate_effect:
  assumes "validate X a dl ep st = Inr st'"
  shows "params st' = params st" and "optim st' = optim st"
    and "checkpoint_writes (io st') = checkpoint_writes (io st)"
    and "scalar_steps ''epoch/loss_epoch_train'' (io st') = scalar_steps ''epoch/loss_epoch_train'' (io st)"
    and "files (io st') (latest_path d) = files (io st) (latest_path d)"
proof -
  have "st' = st \<or> (\<exists>precision miou. record_validation X a ep precision miou st = Inr st')"
    using assms by (auto simp add: validate_def split: if_splits sum.splits)
  then have "params st' = params st \<and> optim st' = optim st \<and>
      checkpoint_writes (io st') = checkpoint_writes (io st) \<and>
      scalar_steps ''epoch/loss_epoch_train'' (io st') = scalar_steps ''epoch/loss_epoch_train'' (io st) \<and>
      files (io st') (latest_path d) = files (io st) (latest_path d)"
  proof
    assume "st' = st"
    then show ?thesis by simp
  next
    assume "\<exists>precision miou. record_validation X a ep precision miou st = Inr st'"
    then obtain precision miou where rv: "record_validation X a ep precision miou st = Inr st'"
      by blast
    have f: "files (io st') (latest_path d) = files (io st) (latest_path d)"
    proof (cases "fl_gt miou (max_miou st)")
      case True
      from record_validation_effect(6) [OF rv True] obtain d' where
        "files (io st') = (files (io st))(best_path d' \<mapsto> ModelFile (params st))" by blast
      moreover have "latest_path d \<noteq> best_path d'"
        by (simp add: latest_path_def best_path_def path_join_def)
      ultimately show ?thesis by simp
    next
      case False
      from record_validation_effect(7) [OF rv False] show ?thesis by simp
    qed
    from record_validation_effect(1,2,3,5) [OF rv] f show ?thesis
      by (simp add: scalar_steps_def)
  qed
  then show "params st' = params st" and "optim st' = optim st"
    and "checkpoint_writes (io st') = checkpoint_writes (io st)"
    and "scalar_steps ''epoch/loss_epoch_train'' (io st') = scalar_steps ''epoch/loss_epoch_train'' (io st)"
    and "files (io st') (latest_path d) = files (io st) (latest_path d)"
    by simp_all
qed


text \<open>A completed epoch body is a completed batch loop, checkpoint section and validation section.\<close>

lemma epoch_body_InrD:
  assumes "epoch_body X a lf dlt dlv ep st = Inr st'"
  obtains loss_record st1 st3 where
    "train_batches X lf (dlt ep) [] st = Inr (loss_record, st1)"
    "save_checkpoint X a ep
       (st1\<lparr>io := add_scalar ''epoch/loss_epoch_train'' (np_mean loss_record) ep (io st1)\<rparr>) = Inr st3"
    "validate X a dlv ep st3 = Inr st'"
  using assms
  by (auto simp add: epoch_body_def Let_def split: sum.splits prod.splits)

lemma train_epoch_InrD:
  assumes "train_epoch X a lf dlt dlv ep st = Inr st'"
  obtains opt' lr where
    "poly_lr_scheduler (min_lr X) (optim st) (learning_rate a) ep (num_epochs a) = Inr (opt', lr)"
    "epoch_body X a lf dlt dlv ep (st\<lparr>optim := opt'\<rparr>) = Inr st'"
  using assms
  by (auto simp add: train_epoch_def split: sum.splits prod.splits)

lemma epoch_body_checkpoint:
  assumes "epoch_body X a lf dlt dlv ep st = Inr st'"
  shows "ep mod checkpoint_step a = 0 \<and> ep \<noteq> 0 \<Longrightarrow>
           \<exists>d. save_model_path a = Some d \<and> path_error d = None \<and>
               checkpoint_writes (io st') = checkpoint_writes (io st) @
                 [(latest_path d, \<lparr>epoch = ep, model_state_dict = params st',
                                   optimizer_state_dict = state_dict (optim st')\<rparr>)] \<and>
               files (io st') (latest_path d) =
                 Some (CheckpointFile \<lparr>epoch = ep, model_state_dict = params st',
                                        optimizer_state_dict = state_dict (optim st')\<rparr>)"
    and "\<not> (ep mod checkpoint_step a = 0 \<and> ep \<noteq> 0) \<Longrightarrow>
           checkpoint_writes (io st') = checkpoint_writes (io st)"
proof -
  from assms obtain loss_record st1 st3 where
    tb: "train_batches X lf (dlt ep) [] st = Inr (loss_record, st1)" and
    sc: "save_checkpoint X a ep
       (st1\<lparr>io := add_scalar ''epoch/loss_epoch_train'' (np_mean loss_record) ep (io st1)\<rparr>) = Inr st3" and
    va: "validate X a dlv ep st3 = Inr st'"
    by (rule epoch_body_InrD)
  let ?st2 = "st1\<lparr>io := add_scalar ''epoch/loss_epoch_train'' (np_mean loss_record) ep (io st1)\<rparr>"
  have s1: "saves (io st1) = saves (io st)"
    using train_batches_keeps [OF tb] by simp
  have cw2: "checkpoint_writes (io ?st2) = checkpoint_writes (io st)"
    using s1 by (simp add: checkpoint_writes_def add_scalar_fields)
  note v = validate_effect [OF va]
  {
    assume c: "ep mod checkpoint_step a = 0 \<and> ep \<noteq> 0"
    from save_checkpoint_effect(6) [OF sc c] obtain d where
      d: "save_model_path a = Some d" "path_error d = None" and
      w: "io st3 = torch_save (latest_path d)
            (CheckpointFile \<lparr>epoch = ep, model_state_dict = params ?st2,
                             optimizer_state_dict = state_dict (optim ?st2)\<rparr>) (io ?st2)"
      by blast
    have p: "params st' = params ?st2" "optim st' = optim ?st2"
      using v(1,2) save_checkpoint_effect(1,2) [OF sc] by simp_all
    have "checkpoint_writes (io st') = checkpoint_writes (io st) @
              [(latest_path d, \<lparr>epoch = ep, model_state_dict = params st',
                                optimizer_state_dict = state_dict (optim st')\<rparr>)]"
      using v(3) w cw2 p by (simp add: writes_torch_save)
    moreover have "files (io st') (latest_path d) =
              Some (CheckpointFile \<lparr>epoch = ep, model_state_dict = params st',
                                     optimizer_state_dict = state_dict (optim st')\<rparr>)"
      using v(5) [of d] w p by (simp add: torch_save_fields)
    ultimately show "\<exists>d. save_model_path a = Some d \<and> path_error d = None \<and>
               checkpoint_writes (io st') = checkpoint_writes (io st) @
                 [(latest_path d, \<lparr>epoch = ep, model_state_dict = params st',
                                   optimizer_state_dict = state_dict (optim st')\<rparr>)] \<and>
               files (io st') (latest_path d) =
                 Some (CheckpointFile \<lparr>epoch = ep, model_state_dict = params st',
                                        optimizer_state_dict = state_dict (optim st')\<rparr>)"
      using d by blast
  }
  {
    assume c: "\<not> (ep mod checkpoint_step a = 0 \<and> ep \<noteq> 0)"
    from save_checkpoint_effect(7) [OF sc c] have "st3 = ?st2" .
    then show "checkpoint_writes (io st') = checkpoint_writes (io st)"
      using v(3) cw2 by simp
  }
qed


section \<open>Runs that complete\<close>

lemma save_checkpoint_total:
  "runnable X a \<Longrightarrow> \<exists>st'. save_checkpoint X a ep st = Inr st'"
  by (auto simp add: runnable_def save_checkpoint_def split: option.splits)

lemma record_validation_total:
  "runnable X a \<Longrightarrow> \<exists>st'. record_validation X a ep precision miou st = Inr st'"
  by (auto simp add: runnable_def record_validation_def split: option.splits)

lemma val_total:
  "0 \<le> num_classes a \<Longrightarrow> \<exists>precision miou. val X a m batches = Inr (precision, miou)"
  by (simp add: val_def val_loop_eq)

lemma validate_total:
  assumes "runnable X a"
  shows "\<exists>st'. validate X a dlv ep st = Inr st'"
proof -
  from assms have n: "0 \<le> num_classes a" and v: "validation_step a \<noteq> 0"
    by (simp_all add: runnable_def)
  from val_total [OF n, of X "params st" "dlv ep"] obtain precision miou where
    "val X a (params st) (dlv ep) = Inr (precision, miou)" by blast
  with v record_validation_total [OF assms, of ep precision miou st] show ?thesis
    by (auto simp add: validate_def)
qed

lemma epoch_body_total:
  assumes "runnable X a"
  shows "\<exists>st'. epoch_body X a (select_loss X (loss a)) dlt dlv ep st = Inr st'"
proof -
  from assms obtain loss_func where lf: "select_loss X (loss a) = Some loss_func"
    by (auto simp add: runnable_def)
  from train_batches_total [of X loss_func "dlt ep" "[]" st] obtain loss_record st1 where
    tb: "train_batches X (Some loss_func) (dlt ep) [] st = Inr (loss_record, st1)" by blast
  let ?st2 = "st1\<lparr>io := add_scalar ''epoch/loss_epoch_train'' (np_mean loss_record) ep (io st1)\<rparr>"
  from save_checkpoint_total [OF assms, of ep ?st2] obtain st3 where
    sc: "save_checkpoint X a ep ?st2 = Inr st3" by blast
  from validate_total [OF assms, of dlv ep st3] obtain st' where
    "validate X a dlv ep st3 = Inr st'" by blast
  with lf tb sc show ?thesis by (simp add: epoch_body_def Let_def)
qed

lemma train_epoch_total:
  assumes "runnable X a"
  shows "\<exists>st'. train_epoch X a (select_loss X (loss a)) dlt dlv ep st = Inr st'"
proof -
  from assms have "num_epochs a \<noteq> 0" by (simp add: runnable_def)
  then show ?thesis
    using epoch_body_total [OF assms]
    by (simp add: train_epoch_def poly_lr_scheduler_def Let_def)
qed

lemma train_epochs_total:
  assumes "runnable X a"
  shows "\<exists>st'. train_epochs X a (select_loss X (loss a)) dlt dlv es st = Inr st'"
proof (induction es arbitrary: st)
  case Nil
  show ?case by simp
next
  case (Cons ep es)
  from train_epoch_total [OF assms, of dlt dlv ep st] obtain st1 where
    "train_epoch X a (select_loss X (loss a)) dlt dlv ep st = Inr st1" by blast
  with Cons.IH [of st1] show ?case by simp
qed

lemma train_total:
  "runnable X a \<Longrightarrow> \<exists>st'. train X a model opt dlt dlv curr_epoch w = Inr st'"
  by (simp add: train_def train_epochs_total)

section \<open>The epochs of a run\<close>

lemma epoch_body_epochs_run:
  assumes "epoch_body X a lf dlt dlv ep st = Inr st'"
  shows "epochs_run (io st') = epochs_run (io st) @ [ep]"
proof -
  from assms obtain loss_record st1 st3 where
    tb: "train_batches X lf (dlt ep) [] st = Inr (loss_record, st1)" and
    sc: "save_checkpoint X a ep
       (st1\<lparr>io := add_scalar ''epoch/loss_epoch_train'' (np_mean loss_record) ep (io st1)\<rparr>) = Inr st3" and
    va: "validate X a dlv ep st3 = Inr st'"
    by (rule epoch_body_InrD)
  have "scalar_steps ''epoch/loss_epoch_train'' (io st1) = scalar_steps ''epoch/loss_epoch_train'' (io st)"
    using train_batches_keeps [OF tb] by simp
  moreover have "scalars (io st3) =
      scalars (io st1) @ [(''epoch/loss_epoch_train'', np_mean loss_record, ep)]"
    using save_checkpoint_effect(4) [OF sc] by (simp add: add_scalar_fields)
  ultimately show ?thesis
    using validate_effect(4) [OF va] by (simp add: epochs_run_def scalar_steps_def)
qed

lemma train_epochs_epochs_run:
  "train_epochs X a lf dlt dlv es st = Inr st' \<Longrightarrow> epochs_run (io st') = epochs_run (io st) @ es"
proof (induction es arbitrary: st)
  case Nil
  then show ?case by simp
next
  case (Cons ep es)
  from Cons.prems obtain st1 where
    e: "train_epoch X a lf dlt dlv ep st = Inr st1" and
    r: "train_epochs X a lf dlt dlv es st1 = Inr st'"
    by (auto split: sum.splits)
  from e obtain opt' and lr :: real where
    "epoch_body X a lf dlt dlv ep (st\<lparr>optim := opt'\<rparr>) = Inr st1"
    by (rule train_epoch_InrD)
  from epoch_body_epochs_run [OF this] Cons.IH [OF r] show ?case by simp
qed

lemma train_epochs_run:
  "train X a model opt dlt dlv curr_epoch w = Inr st' \<Longrightarrow>
     epochs_run (io st') = epoch_range curr_epoch (num_epochs a)"
  using train_epochs_epochs_run [of X a "select_loss X (loss a)" dlt dlv
      "epoch_range curr_epoch (num_epochs a)" "train_init X model opt w" st']
  by (simp add: train_def train_init_def epochs_run_def scalar_steps_def)


section \<open>The best-model tracker\<close>

lemma run_max_snoc:
  "run_max m (xs @ [x]) = (if fl_gt x (run_max m xs) then x else run_max m xs)"
  by (induction xs arbitrary: m) simp_all

lemma records_snoc:
  "records m (xs @ [x]) = records m xs + (if fl_gt x (run_max m xs) then 1 else 0)"
  by (induction xs arbitrary: m) simp_all

lemma run_max_Fin:
  "\<exists>y'. run_max (Fin y) xs = Fin y' \<and> y \<le> y'"
proof (induction xs arbitrary: y)
  case Nil
  show ?case by simp
next
  case (Cons x xs)
  show ?case
  proof (cases x)
    case NaN
    with Cons.IH [of y] show ?thesis by simp
  next
    case (Fin z)
    show ?thesis
    proof (cases "y < z")
      case True
      from Cons.IH [of z] obtain y' where "run_max (Fin z) xs = Fin y'" "z \<le> y'" by blast
      with True Fin show ?thesis by simp
    next
      case False
      with Fin Cons.IH [of y] show ?thesis by simp
    qed
  qed
qed

lemma run_max_append_le:
  "fl_le (run_max (Fin y) xs) (run_max (Fin y) (xs @ ys))"
proof (induction ys rule: rev_induct)
  case Nil
  from run_max_Fin [of y xs] show ?case by auto
next
  case (snoc z ys)
  from run_max_Fin [of y xs] obtain u where u: "run_max (Fin y) xs = Fin u" by blast
  from run_max_Fin [of y "xs @ ys"] obtain v where v: "run_max (Fin y) (xs @ ys) = Fin v" by blast
  from snoc.IH u v have uv: "u \<le> v" by simp
  have "run_max (Fin y) (xs @ ys @ [z]) =
          (if fl_gt z (Fin v) then z else Fin v)"
    using run_max_snoc [of "Fin y" "xs @ ys" z] v by simp
  then show ?case using u uv by (cases z) auto
qed

lemma run_max_none_exceeds:
  "list_all (\<lambda>x. \<not> fl_gt x m) xs \<Longrightarrow> run_max m xs = m \<and> records m xs = 0"
  by (induction xs) simp_all

lemma records_first_exceeding:
  "list_all (\<lambda>x. \<not> fl_gt x m) xs \<Longrightarrow> fl_gt x m \<Longrightarrow>
     records m (xs @ x # ys) = Suc (records x ys)"
  by (induction xs) simp_all

lemma record_validation_inv:
  assumes "record_validation X a ep precision miou st = Inr st'" and "tracker_inv k st"
  shows "tracker_inv k st'"
proof -
  note e = record_validation_effect [OF assms(1)]
  have m: "mious (io st') = mious (io st) @ [miou]"
    using e(3) by (simp add: mious_def scalar_values_def)
  have b: "length (best_writes (io st')) =
             length (best_writes (io st)) + (if fl_gt miou (max_miou st) then 1 else 0)"
  proof (cases "fl_gt miou (max_miou st)")
    case True
    from e(6) [OF True] show ?thesis using True by (auto simp add: best_writes_def)
  next
    case False
    from e(7) [OF False] show ?thesis using False by (simp add: best_writes_def)
  qed
  from assms(2) m b e(4) show ?thesis
    by (simp add: tracker_inv_def run_max_snoc records_snoc)
qed

lemma validate_inv:
  assumes "validate X a dlv ep st = Inr st'" and "tracker_inv k st"
  shows "tracker_inv k st'"
proof -
  have "st' = st \<or> (\<exists>precision miou. record_validation X a ep precision miou st = Inr st')"
    using assms(1) by (auto simp add: validate_def split: if_splits sum.splits)
  with assms(2) record_validation_inv show ?thesis by blast
qed

lemma epoch_body_inv:
  assumes "epoch_body X a lf dlt dlv ep st = Inr st'" and "tracker_inv k st"
  shows "tracker_inv k st'"
proof -
  from assms(1) obtain loss_record st1 st3 where
    tb: "train_batches X lf (dlt ep) [] st = Inr (loss_record, st1)" and
    sc: "save_checkpoint X a ep
       (st1\<lparr>io := add_scalar ''epoch/loss_epoch_train'' (np_mean loss_record) ep (io st1)\<rparr>) = Inr st3" and
    va: "validate X a dlv ep st3 = Inr st'"
    by (rule epoch_body_InrD)
  let ?st2 = "st1\<lparr>io := add_scalar ''epoch/loss_epoch_train'' (np_mean loss_record) ep (io st1)\<rparr>"
  have "tracker_inv k ?st2"
    using train_batches_keeps [OF tb] assms(2)
    by (simp add: tracker_inv_def mious_def scalar_values_add best_writes_def add_scalar_fields)
  then have "tracker_inv k st3"
    using save_checkpoint_effect(3,4,5) [OF sc]
    by (simp add: tracker_inv_def mious_def scalar_values_def)
  with va show ?thesis by (rule validate_inv)
qed

lemma train_epochs_inv:
  "train_epochs X a lf dlt dlv es st = Inr st' \<Longrightarrow> tracker_inv k st \<Longrightarrow> tracker_inv k st'"
proof (induction es arbitrary: st)
  case Nil
  then show ?case by simp
next
  case (Cons ep es)
  from Cons.prems(1) obtain st1 where
    e: "train_epoch X a lf dlt dlv ep st = Inr st1" and
    r: "train_epochs X a lf dlt dlv es st1 = Inr st'"
    by (auto split: sum.splits)
  from e obtain opt' and lr :: real where
    b: "epoch_body X a lf dlt dlv ep (st\<lparr>optim := opt'\<rparr>) = Inr st1"
    by (rule train_epoch_InrD)
  have "tracker_inv k (st\<lparr>optim := opt'\<rparr>)"
    using Cons.prems(2) by (simp add: tracker_inv_def)
  from epoch_body_inv [OF b this] Cons.IH [OF r] show ?case by simp
qed

lemma train_init_inv: "tracker_inv (length (best_writes w)) (train_init X model opt w)"
  by (simp add: tracker_inv_def train_init_def mious_def scalar_values_def best_writes_def)


section \<open>Checkpoints\<close>

lemma out_path_ok: "path_error ''out'' = None"
  by (simp add: path_error_def)

lemma demo_runnable: "runnable demo_extern demo_args"
  by (simp add: runnable_def demo_args_def demo_extern_def has_module_def select_loss_def
      out_path_ok)

lemma demo_val_result:
  "val demo_extern demo_args m (demo_val ep) = Inr (Fin (1 / 2), Fin (1 / 2))"
  by (simp add: val_def val_loop_eq demo_val_def demo_args_def demo_extern_def
      batch_accuracy_def batch_arrays_def compute_global_accuracy_def confusion_of_def upto01
      per_class_iu_def np_mean_def upt_rec)

lemma demo_epochs_1_2:
  "\<exists>st1 st2.
     train_epoch demo_extern demo_args (select_loss demo_extern (loss demo_args))
       demo_train demo_val 1 (train_init demo_extern 0 demo_opt demo_io) = Inr st1 \<and>
     params st1 = 1 \<and> checkpoint_writes (io st1) = [] \<and>
     train_epoch demo_extern demo_args (select_loss demo_extern (loss demo_args))
       demo_train demo_val 2 st1 = Inr st2 \<and>
     params st2 = 2 \<and>
     optim st2 = demo_opt\<lparr>param_groups := [poly_lr (1 / 100000) (1 / 40) 2 3]\<rparr>"
proof -
  have n: "num_epochs demo_args = 3" "validation_step demo_args = 1" "checkpoint_step demo_args = 2"
     "save_model_path demo_args = Some ''out''" "has_module demo_extern demo_args"
     "learning_rate demo_args = 1 / 40" "min_lr demo_extern = 1 / 100000"
     "select_loss demo_extern (loss demo_args) = Some (dice_loss demo_extern)"
    by (simp_all add: demo_args_def has_module_def demo_extern_def select_loss_def)
  have b: "backward_step demo_extern = (\<lambda>l d t (m, opt, s). (m + 1, opt, s))"
    by (simp add: demo_extern_def)
  show ?thesis
    by (simp add: train_init_def train_epoch_def poly_lr_scheduler_def epoch_body_def demo_train_def
        Let_def n b save_checkpoint_def validate_def demo_val_result record_validation_def
        add_scalar_def torch_save_def out_path_ok checkpoint_writes_def demo_opt_def demo_io_def)
qed

text \<open>
  Claim C7.  In every epoch whose body completes, the checkpoint dictionary of the epoch
  number, the model parameters and the optimizer state is written to the one path
  \<open>latest_dice_loss.pth\<close> of the output directory, replacing what that path held, if
  and only if the epoch is a non-zero multiple of \<open>checkpoint_step\<close>.
\<close>

theorem checkpoint_written_iff:
  assumes "train_epoch X a lf dlt dlv ep st = Inr st'"
  shows "(ep mod checkpoint_step a = 0 \<and> ep \<noteq> 0 \<longrightarrow>
            (\<exists>d. save_model_path a = Some d \<and> path_error d = None \<and>
                 checkpoint_writes (io st') = checkpoint_writes (io st) @
                   [(latest_path d, \<lparr>epoch = ep, model_state_dict = params st',
                                     optimizer_state_dict = state_dict (optim st')\<rparr>)] \<and>
                 files (io st') (latest_path d) =
                   Some (CheckpointFile \<lparr>epoch = ep, model_state_dict = params st',
                                          optimizer_state_dict = state_dict (optim st')\<rparr>))) \<and>
         (\<not> (ep mod checkpoint_step a = 0 \<and> ep \<noteq> 0) \<longrightarrow>
            checkpoint_writes (io st') = checkpoint_writes (io st))"
proof -
  from assms obtain opt' and lr :: real where
    b: "epoch_body X a lf dlt dlv ep (st\<lparr>optim := opt'\<rparr>) = Inr st'"
    by (rule train_epoch_InrD)
  from epoch_body_checkpoint [OF b] show ?thesis by simp
qed

theorem checkpoint_written_iff_witness:
  "\<exists>st1 st2.
     train_epoch demo_extern demo_args (select_loss demo_extern (loss demo_args))
       demo_train demo_val 1 (train_init demo_extern 0 demo_opt demo_io) = Inr st1 \<and>
     checkpoint_writes (io st1) = [] \<and>
     train_epoch demo_extern demo_args (select_loss demo_extern (loss demo_args))
       demo_train demo_val 2 st1 = Inr st2 \<and>
     checkpoint_writes (io st2) =
       [(''out/latest_dice_loss.pth'',
         \<lparr>epoch = 2, model_state_dict = 2,
          optimizer_state_dict = ([poly_lr (1 / 100000) (1 / 40) 2 3], ())\<rparr>)] \<and>
     files (io st2) ''out/latest_dice_loss.pth'' =
       Some (CheckpointFile \<lparr>epoch = 2, model_state_dict = 2,
          optimizer_state_dict = ([poly_lr (1 / 100000) (1 / 40) 2 3], ())\<rparr>)"
proof -
  from demo_epochs_1_2 obtain st1 st2 where
    r1: "train_epoch demo_extern demo_args (select_loss demo_extern (loss demo_args))
       demo_train demo_val 1 (train_init demo_extern 0 demo_opt demo_io) = Inr st1" and
    r2: "train_epoch demo_extern demo_args (select_loss demo_extern (loss demo_args))
       demo_train demo_val 2 st1 = Inr st2" and
    p: "params st2 = 2"
       "optim st2 = demo_opt\<lparr>param_groups := [poly_lr (1 / 100000) (1 / 40) 2 3]\<rparr>"
    by blast
  have c1: "\<not> (1 mod checkpoint_step demo_args = 0 \<and> (1::int) \<noteq> 0)"
    by (simp add: demo_args_def)
  have c2: "2 mod checkpoint_step demo_args = 0 \<and> (2::int) \<noteq> 0"
    by (simp add: demo_args_def)
  have i: "checkpoint_writes (io (train_init demo_extern 0 demo_opt demo_io)) = []"
    by (simp add: train_init_def demo_io_def checkpoint_writes_def)
  have l: "latest_path ''out'' = ''out/latest_dice_loss.pth''"
    by (simp add: latest_path_def path_join_def)
  have s: "state_dict (optim st2) = ([poly_lr (1 / 100000) (1 / 40) 2 3], ())"
    using p(2) by (simp add: state_dict_def demo_opt_def)
  from checkpoint_written_iff [OF r1] c1 i
  have w1: "checkpoint_writes (io st1) = []" by simp
  from checkpoint_written_iff [OF r2] c2 w1 l p(1) s
  have "checkpoint_writes (io st2) =
       [(''out/latest_dice_loss.pth'',
         \<lparr>epoch = 2, model_state_dict = 2,
          optimizer_state_dict = ([poly_lr (1 / 100000) (1 / 40) 2 3], ())\<rparr>)] \<and>
     files (io st2) ''out/latest_dice_loss.pth'' =
       Some (CheckpointFile \<lparr>epoch = 2, model_state_dict = 2,
          optimizer_state_dict = ([poly_lr (1 / 100000) (1 / 40) 2 3], ())\<rparr>)"
    by (auto simp add: demo_args_def)
  with r1 r2 w1 show ?thesis by blast
qed


section \<open>Best-model writes\<close>










section \<open>Configuration errors\<close>

text \<open>
  Claim C6.  When the optimizer name is none of \<open>rmsprop\<close>, \<open>sgd\<close> and \<open>adam\<close>,
  \<open>main\<close> prints its arguments (the name among them) and the message that the
  optimizer is not supported, and returns: no loader is read, no scalar is logged, nothing
  is saved and the file system is as it was.
\<close>

theorem unsupported_optimizer_aborts:
  assumes "optimizer a \<noteq> ''rmsprop''" and "optimizer a \<noteq> ''sgd''" and "optimizer a \<noteq> ''adam''"
  shows "main X a dataloader_train dataloader_val fs =
           (\<lparr>files = fs, saves = [], scalars = [],
             stdout = [PrintArgs a, Text ''not supported optimizer \<newline>'']\<rparr>, None)"
  using assms by (simp add: main_def build_optimizer_def)

theorem unsupported_optimizer_aborts_witness:
  "main demo_extern (demo_args\<lparr>optimizer := ''foo''\<rparr>) demo_train demo_val (\<lambda>p. None) =
     (\<lparr>files = (\<lambda>p. None), saves = [], scalars = [],
       stdout = [PrintArgs (demo_args\<lparr>optimizer := ''foo''\<rparr>), Text ''not supported optimizer \<newline>'']\<rparr>,
      None)"
  using unsupported_optimizer_aborts [of "demo_args\<lparr>optimizer := ''foo''\<rparr>" demo_extern
      demo_train demo_val "\<lambda>p. None"]
  by simp


section \<open>Loss aggregation\<close>

text \<open>
  Claim C9.  On every training batch the chosen loss function, which is the Dice loss or
  the cross entropy, is applied to each of the three outputs of the network against the
  same label, and the loss that is backpropagated, logged and recorded is the sum of the
  three values, with no weights.
\<close>

theorem batch_loss_sums_three_heads:
  assumes "forward_train X (params st) data = (output, output_sup1, output_sup2)"
    and "select_loss X (loss a) = Some loss_func"
    and "l = fl_add (fl_add (loss_func output label) (loss_func output_sup1 label))
                    (loss_func output_sup2 label)"
    and "backward_step X l data label (params st, optim st, scaler st) = (m', o', s')"
  shows "train_batches X (select_loss X (loss a)) ((data, label) # bs) loss_record st =
           train_batches X (select_loss X (loss a)) bs (loss_record @ [l])
             (st\<lparr>params := m', optim := o', scaler := s', step := step st + 1,
                 io := add_scalar ''loss_step'' l (step st + 1) (io st)\<rparr>) \<and>
         (loss_func = dice_loss X \<or> loss_func = cross_entropy X) \<and>
         (\<forall>x y z. loss_func output label = Fin x \<and> loss_func output_sup1 label = Fin y \<and>
                  loss_func output_sup2 label = Fin z \<longrightarrow> l = Fin (x + y + z))"
proof (intro conjI allI impI)
  show "train_batches X (select_loss X (loss a)) ((data, label) # bs) loss_record st =
           train_batches X (select_loss X (loss a)) bs (loss_record @ [l])
             (st\<lparr>params := m', optim := o', scaler := s', step := step st + 1,
                 io := add_scalar ''loss_step'' l (step st + 1) (io st)\<rparr>)"
    using assms by (simp add: batch_loss_def Let_def)
  show "loss_func = dice_loss X \<or> loss_func = cross_entropy X"
    using assms(2) by (auto simp add: select_loss_def split: if_splits)
next
  fix x y z
  assume "loss_func output label = Fin x \<and> loss_func output_sup1 label = Fin y \<and>
                  loss_func output_sup2 label = Fin z"
  with assms(3) show "l = Fin (x + y + z)" by simp
qed

theorem batch_loss_sums_three_heads_witness:
  "(case train_batches demo_extern (select_loss demo_extern (loss demo_args)) [([0, 1], [0, 1])] []
           (train_init demo_extern 0 demo_opt demo_io) of
      Inl e \<Rightarrow> False
    | Inr (loss_record, st') \<Rightarrow>
        loss_record = [Fin 3] \<and> scalars (io st') = [(''loss_step'', Fin 3, 1)] \<and> params st' = 1)"
proof -
  let ?st = "train_init demo_extern 0 demo_opt demo_io"
  have f: "forward_train demo_extern (params ?st) [0, 1] = ([0, 1], [0, 1], [0, 1])"
    by (simp add: demo_extern_def)
  have s: "select_loss demo_extern (loss demo_args) = Some (dice_loss demo_extern)"
    by (simp add: select_loss_def demo_args_def)
  have l: "Fin 3 = fl_add (fl_add (dice_loss demo_extern [0, 1] [0, 1])
               (dice_loss demo_extern [0, 1] [0, 1])) (dice_loss demo_extern [0, 1] [0, 1])"
    by (simp add: demo_extern_def)
  have b: "backward_step demo_extern (Fin 3) [0, 1] [0, 1] (params ?st, optim ?st, scaler ?st) =
             (1, demo_opt, ())"
    by (simp add: demo_extern_def train_init_def)
  from batch_loss_sums_three_heads [OF f s l b, of "[]" "[]"]
  show ?thesis
    by (simp add: train_init_def demo_io_def add_scalar_def)
qed


section \<open>Learning-rate schedule\<close>

lemma poly_lr_max:
  "poly_lr mn lr0 t T = max mn (lr0 * (1 - real_of_int t / real_of_int T) powr (9 / 10))"
  by (simp add: poly_lr_def Let_def max_def)

lemma poly_base_mono:
  fixes t t' T :: int
  assumes "1 \<le> t" and "t \<le> t'" and "t' \<le> T"
  shows "0 \<le> 1 - real_of_int t' / real_of_int T"
    and "1 - real_of_int t' / real_of_int T \<le> 1 - real_of_int t / real_of_int T"
proof -
  from assms have T: "0 < real_of_int T" by simp
  from assms(3) T show "0 \<le> 1 - real_of_int t' / real_of_int T" by simp
  from assms(2) have "real_of_int t \<le> real_of_int t'" by simp
  with T have "real_of_int t / real_of_int T \<le> real_of_int t' / real_of_int T"
    by (simp add: divide_right_mono)
  then show "1 - real_of_int t' / real_of_int T \<le> 1 - real_of_int t / real_of_int T" by simp
qed

lemma poly_lr_mono:
  fixes t t' T :: int
  assumes "1 \<le> t" and "t \<le> t'" and "t' \<le> T" and "0 \<le> lr0 \<or> 0 \<le> mn"
  shows "poly_lr mn lr0 t' T \<le> poly_lr mn lr0 t T"
proof -
  let ?b = "1 - real_of_int t / real_of_int T" and ?b' = "1 - real_of_int t' / real_of_int T"
  from poly_base_mono [OF assms(1-3)] have b: "0 \<le> ?b'" "?b' \<le> ?b" by simp_all
  then have p: "?b' powr (9 / 10) \<le> ?b powr (9 / 10)"
    by (intro powr_mono2) simp_all
  show ?thesis
  proof (cases "0 \<le> lr0")
    case True
    with p have "lr0 * ?b' powr (9 / 10) \<le> lr0 * ?b powr (9 / 10)"
      by (rule mult_left_mono)
    then show ?thesis by (simp add: poly_lr_max max_def)
  next
    case False
    with assms(4) have mn: "0 \<le> mn" and neg: "lr0 < 0" by simp_all
    have "lr0 * ?b' powr (9 / 10) \<le> 0" "lr0 * ?b powr (9 / 10) \<le> 0"
      using neg by (simp_all add: mult_le_0_iff)
    with mn show ?thesis by (simp add: poly_lr_max max_def)
  qed
qed

text \<open>
  Claim C4.  For an epoch \<open>t\<close> between 1 and the epoch count \<open>T\<close> the scheduler writes
  the rate \<open>lr0 * (1 - t/T)^0.9\<close>, raised to the minimum threshold when below it, into
  every parameter group and returns it; the epoch body runs its batches on the optimizer
  so updated; and the rate of a later epoch is never greater, for a base rate or a
  threshold that is not negative.
\<close>

theorem poly_lr_schedule:
  fixes t T :: int
  assumes "1 \<le> t" and "t \<le> T"
    and "v = max mn (lr0 * (1 - real_of_int t / real_of_int T) powr 0.9)"
  shows "poly_lr_scheduler mn opt lr0 t T =
           Inr (opt\<lparr>param_groups := map (\<lambda>_. v) (param_groups opt)\<rparr>, v) \<and>
         (num_epochs a = T \<and> learning_rate a = lr0 \<and> min_lr X = mn \<longrightarrow>
            train_epoch X a lf dlt dlv t st =
              epoch_body X a lf dlt dlv t
                (st\<lparr>optim := (optim st)\<lparr>param_groups := map (\<lambda>_. v) (param_groups (optim st))\<rparr>\<rparr>)) \<and>
         (\<forall>t'. t \<le> t' \<and> t' \<le> T \<and> (0 \<le> lr0 \<or> 0 \<le> mn) \<longrightarrow>
            max mn (lr0 * (1 - real_of_int t' / real_of_int T) powr 0.9) \<le> v)"
proof (intro conjI allI impI)
  from assms(1,2) have T: "T \<noteq> 0" by simp
  have v: "poly_lr mn lr0 t T = v"
    using assms(3) by (simp add: poly_lr_max)
  show s: "poly_lr_scheduler mn opt lr0 t T =
           Inr (opt\<lparr>param_groups := map (\<lambda>_. v) (param_groups opt)\<rparr>, v)"
    using T v by (simp add: poly_lr_scheduler_def Let_def)
  {
    assume "num_epochs a = T \<and> learning_rate a = lr0 \<and> min_lr X = mn"
    then show "train_epoch X a lf dlt dlv t st =
              epoch_body X a lf dlt dlv t
                (st\<lparr>optim := (optim st)\<lparr>param_groups := map (\<lambda>_. v) (param_groups (optim st))\<rparr>\<rparr>)"
      using T v by (auto simp add: train_epoch_def poly_lr_scheduler_def Let_def)
  }
  {
    fix t'
    assume h: "t \<le> t' \<and> t' \<le> T \<and> (0 \<le> lr0 \<or> 0 \<le> mn)"
    then have "poly_lr mn lr0 t' T \<le> poly_lr mn lr0 t T"
      using poly_lr_mono [OF assms(1), of t' T lr0 mn] by simp
    then show "max mn (lr0 * (1 - real_of_int t' / real_of_int T) powr 0.9) \<le> v"
      using assms(3) by (simp add: poly_lr_max)
  }
qed

theorem poly_lr_schedule_witness:
  "poly_lr_scheduler (1 / 100000) demo_opt (1 / 40) 2 2 =
     Inr (demo_opt\<lparr>param_groups := [1 / 100000]\<rparr>, 1 / 100000) \<and>
   max (1 / 100000) ((1 / 40) * (1 - real_of_int 2 / real_of_int 2) powr 0.9)
     \<le> max (1 / 100000) ((1 / 40) * (1 - real_of_int 1 / real_of_int 2) powr 0.9)"
proof -
  have v: "(1 / 100000 :: real) =
      max (1 / 100000) ((1 / 40) * (1 - real_of_int 2 / real_of_int 2) powr 0.9)"
    by simp
  have "(1::int) \<le> 2" and "(2::int) \<le> 2" by simp_all
  from poly_lr_schedule [where t = 2 and T = 2 and mn = "1 / 100000" and ?lr0.0 = "1 / 40"
      and v = "1 / 100000" and opt = demo_opt and a = demo_args and X = demo_extern
      and lf = None and dlt = demo_train and dlv = demo_val
      and st = "train_init demo_extern 0 demo_opt demo_io", OF this v]
  have "poly_lr_scheduler (1 / 100000) demo_opt (1 / 40) 2 2 =
          Inr (demo_opt\<lparr>param_groups := map (\<lambda>_. 1 / 100000) (param_groups demo_opt)\<rparr>,
               1 / 100000)"
    by blast
  then have first: "poly_lr_scheduler (1 / 100000) demo_opt (1 / 40) 2 2 =
     Inr (demo_opt\<lparr>param_groups := [1 / 100000]\<rparr>, 1 / 100000)"
    by (simp add: demo_opt_def)
  have "(1::int) \<le> 1" and "(1::int) \<le> 2" by simp_all
  from poly_lr_schedule [where t = 1 and T = 2 and mn = "1 / 100000" and ?lr0.0 = "1 / 40"
      and v = "max (1 / 100000) ((1 / 40) * (1 - real_of_int 1 / real_of_int 2) powr 0.9)"
      and opt = demo_opt and a = demo_args and X = demo_extern
      and lf = None and dlt = demo_train and dlv = demo_val
      and st = "train_init demo_extern 0 demo_opt demo_io", OF this refl]
  have "\<forall>t'. 1 \<le> t' \<and> t' \<le> 2 \<and> ((0::real) \<le> 1 / 40 \<or> (0::real) \<le> 1 / 100000) \<longrightarrow>
          max (1 / 100000) ((1 / 40) * (1 - real_of_int t' / real_of_int 2) powr 0.9)
            \<le> max (1 / 100000) ((1 / 40) * (1 - real_of_int 1 / real_of_int 2) powr 0.9)"
    by blast
  then have "max (1 / 100000) ((1 / 40) * (1 - real_of_int 2 / real_of_int 2) powr 0.9)
            \<le> max (1 / 100000) ((1 / 40) * (1 - real_of_int 1 / real_of_int 2) powr 0.9)"
    by (rule allE [of _ 2]) simp
  with first show ?thesis by (rule conjI)
qed

section \<open>Resuming from a checkpoint\<close>

lemma load_pretrained_checkpoint:
  assumes "pretrained_model_path a = Some p" and "path_error p = None"
    and "fs p = Some (CheckpointFile c)" and "has_module X a"
  shows "load_pretrained X a fs model opt =
           ([Text (''\<newline>'' @ stars), LoadingModel p, EpochDone (epoch c), Text ''Done!'',
             Text (stars @ ''\<newline>'')],
            Inr (model_state_dict c, load_state_dict opt (optimizer_state_dict c), epoch c + 1))"
    and "state_dict (load_state_dict opt (optimizer_state_dict c)) = optimizer_state_dict c"
  using assms by (simp_all add: load_pretrained_def state_dict_def load_state_dict_def Let_def)

text \<open>The epoch loop prints nothing that \<open>stdout\<close> records.\<close>

lemma save_checkpoint_stdout:
  "save_checkpoint X a ep st = Inr st' \<Longrightarrow> stdout (io st') = stdout (io st)"
  by (auto simp add: save_checkpoint_def torch_save_fields split: if_splits option.splits)

lemma validate_stdout:
  "validate X a dlv ep st = Inr st' \<Longrightarrow> stdout (io st') = stdout (io st)"
  by (auto simp add: validate_def record_validation_def torch_save_fields add_scalar_fields
      split: if_splits option.splits sum.splits)

lemma train_epoch_stdout:
  assumes "train_epoch X a lf dlt dlv ep st = Inr st'"
  shows "stdout (io st') = stdout (io st)"
proof -
  from assms obtain opt' and lr :: real where
    b: "epoch_body X a lf dlt dlv ep (st\<lparr>optim := opt'\<rparr>) = Inr st'"
    by (rule train_epoch_InrD)
  from b obtain loss_record st1 st3 where
    tb: "train_batches X lf (dlt ep) [] (st\<lparr>optim := opt'\<rparr>) = Inr (loss_record, st1)" and
    sc: "save_checkpoint X a ep
       (st1\<lparr>io := add_scalar ''epoch/loss_epoch_train'' (np_mean loss_record) ep (io st1)\<rparr>) = Inr st3" and
    va: "validate X a dlv ep st3 = Inr st'"
    by (rule epoch_body_InrD)
  from train_batches_keeps [OF tb] save_checkpoint_stdout [OF sc] validate_stdout [OF va]
  show ?thesis by (simp add: add_scalar_fields)
qed

lemma train_epochs_stdout:
  "train_epochs X a lf dlt dlv es st = Inr st' \<Longrightarrow> stdout (io st') = stdout (io st)"
proof (induction es arbitrary: st)
  case Nil
  then show ?case by simp
next
  case (Cons ep es)
  from Cons.prems obtain st1 where
    e: "train_epoch X a lf dlt dlv ep st = Inr st1" and
    r: "train_epochs X a lf dlt dlv es st1 = Inr st'"
    by (auto split: sum.splits)
  from train_epoch_stdout [OF e] Cons.IH [OF r] show ?case by simp
qed

lemma main_of_train:
  assumes "build_optimizer X a = Some opt"
    and "load_pretrained X a fs (init_params X) opt = (out, Inr (model, opt', curr_epoch))"
    and "train X a model opt' dlt dlv curr_epoch
           \<lparr>files = fs, saves = [], scalars = [], stdout = PrintArgs a # out\<rparr> = Inr st'"
    and "0 \<le> num_classes a"
  shows "main X a dlt dlv fs = (io st', None)"
proof -
  from val_total [OF assms(4), of X "params st'" "dlv (num_epochs a + 1)"] obtain precision miou where
    "val X a (params st') (dlv (num_epochs a + 1)) = Inr (precision, miou)" by blast
  with assms(1-3) show ?thesis by (simp add: main_def Let_def)
qed

lemma main_completes:
  assumes "runnable X a" and "build_optimizer X a = Some opt"
    and "load_pretrained X a fs (init_params X) opt = (out, Inr (model, opt', curr_epoch))"
  shows "snd (main X a dlt dlv fs) = None \<and>
         epochs_run (fst (main X a dlt dlv fs)) = epoch_range curr_epoch (num_epochs a) \<and>
         stdout (fst (main X a dlt dlv fs)) = PrintArgs a # out"
proof -
  let ?w0 = "\<lparr>files = fs, saves = [], scalars = [], stdout = PrintArgs a # out\<rparr>"
  from train_total [OF assms(1), of model opt' dlt dlv curr_epoch ?w0] obtain st' where
    t: "train X a model opt' dlt dlv curr_epoch ?w0 = Inr st'" by blast
  from assms(1) have n: "0 \<le> num_classes a" by (simp add: runnable_def)
  have m: "main X a dlt dlv fs = (io st', None)"
    using assms(2,3) t n by (rule main_of_train)
  have "stdout (io st') = PrintArgs a # out"
    using train_epochs_stdout [of X a "select_loss X (loss a)" dlt dlv
        "epoch_range curr_epoch (num_epochs a)" "train_init X model opt' ?w0" st'] t
    by (simp add: train_def train_init_def)
  with m train_epochs_run [OF t] show ?thesis by simp
qed

lemma resume_runnable: "runnable demo_extern resume_args"
  by (simp add: runnable_def resume_args_def demo_args_def demo_extern_def has_module_def
      select_loss_def out_path_ok)

text \<open>
  Claim C1.  Loading a checkpoint written with epoch 5 restores the saved model parameters
  and optimizer state, prints epoch 5 as the last epoch done and sets \<open>curr_epoch\<close> to
  6, but the epoch loop then starts at \<open>curr_epoch + 1\<close>: the resumed run of ten epochs
  executes the epochs 7, 8, 9 and 10, and epoch 6 is never run.
\<close>

theorem resume_after_epoch_5_starts_at_7:
  "load_pretrained demo_extern resume_args resume_fs (init_params demo_extern) demo_opt =
     ([Text (''\<newline>'' @ stars), LoadingModel ''out/latest_dice_loss.pth'', EpochDone 5,
       Text ''Done!'', Text (stars @ ''\<newline>'')],
      Inr (5, \<lparr>kind = SGD, param_groups = [1 / 80], opt_state = ()\<rparr>, 6)) \<and>
   snd (main demo_extern resume_args demo_train demo_val resume_fs) = None \<and>
   epochs_run (fst (main demo_extern resume_args demo_train demo_val resume_fs)) = [7, 8, 9, 10] \<and>
   stdout (fst (main demo_extern resume_args demo_train demo_val resume_fs)) =
     [PrintArgs resume_args, Text (''\<newline>'' @ stars), LoadingModel ''out/latest_dice_loss.pth'',
      EpochDone 5, Text ''Done!'', Text (stars @ ''\<newline>'')]"
proof -
  have b: "build_optimizer demo_extern resume_args = Some demo_opt"
    by (simp add: build_optimizer_def resume_args_def demo_args_def demo_opt_def demo_extern_def)
  have l: "load_pretrained demo_extern resume_args resume_fs (init_params demo_extern) demo_opt =
     ([Text (''\<newline>'' @ stars), LoadingModel ''out/latest_dice_loss.pth'', EpochDone 5,
       Text ''Done!'', Text (stars @ ''\<newline>'')],
      Inr (5, \<lparr>kind = SGD, param_groups = [1 / 80], opt_state = ()\<rparr>, 6))"
    by (simp add: load_pretrained_def resume_args_def demo_args_def resume_fs_def has_module_def
        demo_extern_def load_state_dict_def demo_opt_def path_error_def Let_def)
  have r: "epoch_range 6 (num_epochs resume_args) = [7, 8, 9, 10]"
    by (simp add: epoch_range_def resume_args_def demo_args_def upto.simps)
  from main_completes [OF resume_runnable b l, of demo_train demo_val] l r
  show ?thesis by simp
qed

section \<open>An unknown loss name\<close>

lemma foo_val:
  "val demo_extern foo_args m (demo_val ep) = Inr (Fin (1 / 2), Fin (1 / 2))"
  by (simp add: val_def val_loop_eq demo_val_def foo_args_def demo_args_def demo_extern_def
      batch_accuracy_def batch_arrays_def compute_global_accuracy_def confusion_of_def upto01
      per_class_iu_def np_mean_def upt_rec)

text \<open>
  Claim C2.  A loss name other than \<open>dice\<close> and \<open>crossentropy\<close> is not rejected
  before training.  With a training batch at hand the run raises in the first batch of
  the first epoch, after the scheduler has already overwritten the learning rate; with a
  training loader that yields no batch the run ends without any error, having run all its
  epochs and written the best-model file and the checkpoint.
\<close>

theorem unknown_loss_not_rejected:
  "train demo_extern foo_args 0 demo_opt demo_train demo_val 0 demo_io =
     Inl (UnboundLocalError,
          (train_init demo_extern 0 demo_opt demo_io)
            \<lparr>optim := demo_opt\<lparr>param_groups := [poly_lr (1 / 100000) (1 / 40) 1 3]\<rparr>\<rparr>) \<and>
   snd (main demo_extern foo_args no_batches demo_val (\<lambda>p. None)) = None \<and>
   map fst (saves (fst (main demo_extern foo_args no_batches demo_val (\<lambda>p. None)))) =
     [''out/best_dice_loss.pth'', ''out/latest_dice_loss.pth''] \<and>
   epochs_run (fst (main demo_extern foo_args no_batches demo_val (\<lambda>p. None))) = [1, 2, 3]"
proof -
  have e: "epoch_range 0 (num_epochs foo_args) = [1, 2, 3]"
    by (simp add: epoch_range_def foo_args_def demo_args_def upto.simps)
  have e3: "epoch_range 0 3 = [1, 2, 3]"
    by (simp add: epoch_range_def upto.simps)
  have l: "select_loss demo_extern (loss foo_args) = None"
    by (simp add: select_loss_def foo_args_def demo_args_def)
  have n: "num_epochs foo_args = 3" "validation_step foo_args = 1" "checkpoint_step foo_args = 2"
     "save_model_path foo_args = Some ''out''" "has_module demo_extern foo_args"
     "learning_rate foo_args = 1 / 40" "min_lr demo_extern = 1 / 100000"
     "optimizer foo_args = ''sgd''" "pretrained_model_path foo_args = None"
     "init_params demo_extern = 0" "init_scaler demo_extern = ()" "init_opt_state demo_extern = (\<lambda>_. ())"
    by (simp_all add: foo_args_def demo_args_def has_module_def demo_extern_def)
  have a: "train demo_extern foo_args 0 demo_opt demo_train demo_val 0 demo_io =
     Inl (UnboundLocalError,
          (train_init demo_extern 0 demo_opt demo_io)
            \<lparr>optim := demo_opt\<lparr>param_groups := [poly_lr (1 / 100000) (1 / 40) 1 3]\<rparr>\<rparr>)"
    unfolding train_def e l
    by (simp add: train_epoch_def poly_lr_scheduler_def epoch_body_def demo_train_def n Let_def
        demo_opt_def train_init_def)
  have m: "main demo_extern foo_args no_batches demo_val (\<lambda>p. None) =
      (\<lparr>files = (\<lambda>p. None)
          (''out/best_dice_loss.pth'' \<mapsto> ModelFile 0,
           ''out/latest_dice_loss.pth'' \<mapsto>
             CheckpointFile \<lparr>epoch = 2, model_state_dict = 0,
               optimizer_state_dict = ([poly_lr (1 / 100000) (1 / 40) 2 3], ())\<rparr>),
        saves = [(''out/best_dice_loss.pth'', ModelFile 0),
                 (''out/latest_dice_loss.pth'',
                  CheckpointFile \<lparr>epoch = 2, model_state_dict = 0,
                    optimizer_state_dict = ([poly_lr (1 / 100000) (1 / 40) 2 3], ())\<rparr>)],
        scalars = [(''epoch/loss_epoch_train'', NaN, 1), (''epoch/precision_val'', Fin (1 / 2), 1),
                   (''epoch/miou val'', Fin (1 / 2), 1),
                   (''epoch/loss_epoch_train'', NaN, 2), (''epoch/precision_val'', Fin (1 / 2), 2),
                   (''epoch/miou val'', Fin (1 / 2), 2),
                   (''epoch/loss_epoch_train'', NaN, 3), (''epoch/precision_val'', Fin (1 / 2), 3),
                   (''epoch/miou val'', Fin (1 / 2), 3)],
        stdout = [PrintArgs foo_args]\<rparr>, None)"
    unfolding main_def train_def e l
    by (simp add: build_optimizer_def load_pretrained_def n e3 train_init_def train_epoch_def
        poly_lr_scheduler_def epoch_body_def no_batches_def Let_def np_mean_def save_checkpoint_def
        validate_def foo_val record_validation_def add_scalar_def torch_save_def state_dict_def
        latest_path_def best_path_def path_join_def out_path_ok)
  show ?thesis
    unfolding m a by (simp add: epochs_run_def scalar_steps_def)
qed



section \<open>The best-model tracker of a resumed run\<close>

lemma validate_cases:
  assumes "validate X a dlv ep st = Inr st'"
  shows "validation_step a \<noteq> 0"
    and "\<not> (ep mod validation_step a = 0 \<and> ep \<noteq> 0) \<Longrightarrow> st' = st"
    and "ep mod validation_step a = 0 \<and> ep \<noteq> 0 \<Longrightarrow>
           val X a (params st) (dlv ep) = Inr (precision, miou) \<Longrightarrow>
           record_validation X a ep precision miou st = Inr st'"
  using assms by (auto simp add: validate_def split: if_splits sum.splits)

text \<open>
  Claim C10.  \<open>train\<close> starts with \<open>max_miou = 0\<close> whatever model, optimizer and
  files it is given, and a checkpoint has no field for it.  As long as no validation
  result of the run has exceeded 0 the tracker is still 0 and nothing has been written.
  The first validation whose mean-IoU is above 0 writes the best-model file, over whatever
  that path held, and a validation whose mean-IoU is not above 0 never writes it.
\<close>

theorem best_tracker_restarts_at_zero:
  "max_miou (train_init X model opt w) = Fin 0 \<and>
   (train_epochs X a lf dlt dlv es (train_init X model opt w) = Inr st1 \<longrightarrow>
      (\<exists>y. max_miou st1 = Fin y \<and> 0 \<le> y) \<and>
      (list_all (\<lambda>z. \<not> fl_gt z (Fin 0)) (mious (io st1)) \<longrightarrow>
         max_miou st1 = Fin 0 \<and> length (best_writes (io st1)) = length (best_writes w)) \<and>
      (\<forall>zs x rest. mious (io st1) = zs @ Fin x # rest \<and>
          list_all (\<lambda>z. \<not> fl_gt z (Fin 0)) zs \<and> 0 < x \<longrightarrow>
          length (best_writes (io st1)) = length (best_writes w) + Suc (records (Fin x) rest))) \<and>
   (max_miou st = Fin 0 \<and> 0 < x \<and> ep mod validation_step a = 0 \<and> ep \<noteq> 0 \<and>
    val X a (params st) (dlv ep) = Inr (precision, Fin x) \<and>
    validate X a dlv ep st = Inr st' \<longrightarrow>
      (\<exists>d. save_model_path a = Some d \<and> path_error d = None \<and>
           saves (io st') = saves (io st) @ [(best_path d, ModelFile (params st))] \<and>
           files (io st') (best_path d) = Some (ModelFile (params st)) \<and>
           max_miou st' = Fin x)) \<and>
   (max_miou st = Fin y \<and> 0 \<le> y \<and> \<not> fl_gt miou (Fin 0) \<and>
    val X a (params st) (dlv ep) = Inr (precision, miou) \<and>
    validate X a dlv ep st = Inr st'' \<longrightarrow>
      saves (io st'') = saves (io st) \<and> files (io st'') = files (io st) \<and>
      max_miou st'' = max_miou st)"
proof (intro conjI impI allI)
  show "max_miou (train_init X model opt w) = Fin 0"
    by (simp add: train_init_def)
next
  assume r: "train_epochs X a lf dlt dlv es (train_init X model opt w) = Inr st1"
  from train_epochs_inv [OF r train_init_inv]
  have inv: "max_miou st1 = run_max (Fin 0) (mious (io st1))"
    "length (best_writes (io st1)) = length (best_writes w) + records (Fin 0) (mious (io st1))"
    by (simp_all add: tracker_inv_def)
  from run_max_Fin [of 0 "mious (io st1)"] inv(1)
  show "\<exists>y. max_miou st1 = Fin y \<and> 0 \<le> y" by simp
  {
    assume n: "list_all (\<lambda>z. \<not> fl_gt z (Fin 0)) (mious (io st1))"
    from run_max_none_exceeds [OF n] inv
    show "max_miou st1 = Fin 0" and "length (best_writes (io st1)) = length (best_writes w)"
      by simp_all
  }
  {
    fix zs x rest
    assume h: "mious (io st1) = zs @ Fin x # rest \<and>
          list_all (\<lambda>z. \<not> fl_gt z (Fin 0)) zs \<and> 0 < x"
    then have "records (Fin 0) (zs @ Fin x # rest) = Suc (records (Fin x) rest)"
      using records_first_exceeding [of "Fin 0" zs "Fin x" rest] by simp
    with h inv(2)
    show "length (best_writes (io st1)) = length (best_writes w) + Suc (records (Fin x) rest)"
      by simp
  }
next
  assume h: "max_miou st = Fin 0 \<and> 0 < x \<and> ep mod validation_step a = 0 \<and> ep \<noteq> 0 \<and>
    val X a (params st) (dlv ep) = Inr (precision, Fin x) \<and>
    validate X a dlv ep st = Inr st'"
  then have g: "fl_gt (Fin x) (max_miou st)" by simp
  from h have va: "validate X a dlv ep st = Inr st'"
    and c: "ep mod validation_step a = 0 \<and> ep \<noteq> 0"
    and v: "val X a (params st) (dlv ep) = Inr (precision, Fin x)" by simp_all
  from validate_cases(3) [OF va c v]
  have rv: "record_validation X a ep precision (Fin x) st = Inr st'" .
  from record_validation_effect(6) [OF rv g] record_validation_effect(4) [OF rv] g
  show "\<exists>d. save_model_path a = Some d \<and> path_error d = None \<and>
           saves (io st') = saves (io st) @ [(best_path d, ModelFile (params st))] \<and>
           files (io st') (best_path d) = Some (ModelFile (params st)) \<and>
           max_miou st' = Fin x"
    by auto
next
  assume h: "max_miou st = Fin y \<and> 0 \<le> y \<and> \<not> fl_gt miou (Fin 0) \<and>
    val X a (params st) (dlv ep) = Inr (precision, miou) \<and>
    validate X a dlv ep st = Inr st''"
  then have g: "\<not> fl_gt miou (max_miou st)" by (cases miou) auto
  from h have va: "validate X a dlv ep st = Inr st''"
    and v: "val X a (params st) (dlv ep) = Inr (precision, miou)" by simp_all
  have "saves (io st'') = saves (io st) \<and> files (io st'') = files (io st) \<and>
      max_miou st'' = max_miou st"
  proof (cases "ep mod validation_step a = 0 \<and> ep \<noteq> 0")
    case True
    from validate_cases(3) [OF va True v]
    have rv: "record_validation X a ep precision miou st = Inr st''" .
    from record_validation_effect(7) [OF rv g] record_validation_effect(4) [OF rv] g
    show ?thesis by simp
  next
    case False
    from validate_cases(2) [OF va False] show ?thesis by simp
  qed
  then show "saves (io st'') = saves (io st)" and "files (io st'') = files (io st)"
    and "max_miou st'' = max_miou st" by simp_all
qed

lemma resume_val:
  "val demo_extern resume_args m (demo_val ep) = Inr (Fin (1 / 2), Fin (1 / 2))"
  by (simp add: val_def val_loop_eq demo_val_def resume_args_def demo_args_def demo_extern_def
      batch_accuracy_def batch_arrays_def compute_global_accuracy_def confusion_of_def upto01
      per_class_iu_def np_mean_def upt_rec)

lemma resumed_run:
  "\<exists>st1. train_epochs demo_extern resume_args (Some (dice_loss demo_extern)) demo_train demo_val
            [7, 8, 9, 10]
            (train_init demo_extern 5 \<lparr>kind = SGD, param_groups = [1 / 80], opt_state = ()\<rparr>
               \<lparr>files = resume_fs_best, saves = [], scalars = [], stdout = out\<rparr>) = Inr st1 \<and>
         mious (io st1) = [Fin (1 / 2)] \<and>
         best_writes (io st1) = [(''out/best_dice_loss.pth'', 9)] \<and>
         files (io st1) ''out/best_dice_loss.pth'' = Some (ModelFile 9)"
proof -
  have n: "num_epochs resume_args \<noteq> 0" "validation_step resume_args = 5"
     "checkpoint_step resume_args = 2"
     "save_model_path resume_args = Some ''out''" "has_module demo_extern resume_args"
    by (simp_all add: resume_args_def demo_args_def has_module_def demo_extern_def)
  have b: "backward_step demo_extern = (\<lambda>l d t (m, opt, s). (m + 1, opt, s))"
    by (simp add: demo_extern_def)
  show ?thesis
    by (simp add: train_init_def train_epoch_def poly_lr_scheduler_def epoch_body_def demo_train_def
        Let_def n b save_checkpoint_def validate_def resume_val record_validation_def
        mious_def scalar_values_def add_scalar_def torch_save_def out_path_ok
        best_writes_def best_path_def latest_path_def path_join_def)
qed

theorem best_tracker_restarts_at_zero_witness:
  "resume_fs_best ''out/best_dice_loss.pth'' = Some (ModelFile 99) \<and>
   snd (main demo_extern resume_args demo_train demo_val resume_fs_best) = None \<and>
   mious (fst (main demo_extern resume_args demo_train demo_val resume_fs_best)) = [Fin (1 / 2)] \<and>
   length (best_writes (fst (main demo_extern resume_args demo_train demo_val resume_fs_best))) = 1 \<and>
   files (fst (main demo_extern resume_args demo_train demo_val resume_fs_best))
     ''out/best_dice_loss.pth'' = Some (ModelFile 9)"
proof -
  let ?out = "[Text (''\<newline>'' @ stars), LoadingModel ''out/latest_dice_loss.pth'', EpochDone 5,
       Text ''Done!'', Text (stars @ ''\<newline>'')]"
  let ?opt = "\<lparr>kind = SGD, param_groups = [1 / 80], opt_state = ()\<rparr>"
  let ?w = "\<lparr>files = resume_fs_best, saves = [], scalars = [],
             stdout = PrintArgs resume_args # ?out\<rparr>"
  have b: "build_optimizer demo_extern resume_args = Some demo_opt"
    by (simp add: build_optimizer_def resume_args_def demo_args_def demo_opt_def demo_extern_def)
  have l: "load_pretrained demo_extern resume_args resume_fs_best (init_params demo_extern) demo_opt =
     (?out, Inr (5, ?opt, 6))"
    by (simp add: load_pretrained_def resume_args_def demo_args_def resume_fs_best_def resume_fs_def
        has_module_def demo_extern_def load_state_dict_def demo_opt_def path_error_def Let_def)
  from resumed_run [of "PrintArgs resume_args # ?out"] obtain st1 where
    r: "train_epochs demo_extern resume_args (Some (dice_loss demo_extern)) demo_train demo_val
          [7, 8, 9, 10] (train_init demo_extern 5 ?opt ?w) = Inr st1" and
    m: "mious (io st1) = [Fin (1 / 2)]" and
    f: "files (io st1) ''out/best_dice_loss.pth'' = Some (ModelFile 9)"
    by blast
  have e: "epoch_range 6 (num_epochs resume_args) = [7, 8, 9, 10]"
    by (simp add: epoch_range_def resume_args_def demo_args_def upto.simps)
  have s: "select_loss demo_extern (loss resume_args) = Some (dice_loss demo_extern)"
    by (simp add: select_loss_def resume_args_def demo_args_def)
  have t: "train demo_extern resume_args 5 ?opt demo_train demo_val 6 ?w = Inr st1"
    using r by (simp add: train_def e s)
  have n: "0 \<le> num_classes resume_args" by (simp add: resume_args_def demo_args_def)
  have mn: "main demo_extern resume_args demo_train demo_val resume_fs_best = (io st1, None)"
    using b l t n by (rule main_of_train)
  have bw: "best_writes ?w = []" by (simp add: best_writes_def)
  note q = best_tracker_restarts_at_zero [where X = demo_extern and a = resume_args
      and lf = "Some (dice_loss demo_extern)" and dlt = demo_train and dlv = demo_val
      and es = "[7, 8, 9, 10]" and model = 5 and opt = ?opt and w = ?w and ?st1.0 = st1,
      THEN conjunct2, THEN conjunct1, THEN mp, OF r, THEN conjunct2, THEN conjunct2,
      rule_format, of "[]" "1 / 2" "[]"]
  from q m
  have "length (best_writes (io st1)) = length (best_writes ?w) + Suc (records (Fin (1 / 2)) [])"
    by simp
  then have len: "length (best_writes (io st1)) = 1" using bw by simp
  have p: "resume_fs_best ''out/best_dice_loss.pth'' = Some (ModelFile 99)"
    by (simp add: resume_fs_best_def)
  from p mn m len f show ?thesis by simp
qed


end
